theory Spec2Isabelle
  imports Complex_Main "HOL-Library.AList" "HOL-Library.Multiset" "HOL-Library.Product_Lexorder"
begin

section \<open>Values, dictionaries and errors\<close>

text \<open>
  A number is a Python float or int: a real value, one of the two infinities, or NaN
  (\<^verbatim>\<open>json.loads\<close> accepts \<^verbatim>\<open>NaN\<close> and \<^verbatim>\<open>Infinity\<close>, and a scoring function may
  return them).
\<close>

datatype pyfloat = Float real | PosInf | NegInf | NaN

text \<open>
  \<open>float_rank\<close> is the order in which numpy sorts floats: increasing, with NaN after
  every other value. \<open>float_le a b\<close> is Python's \<^verbatim>\<open>a <= b\<close>, which is false whenever NaN
  is involved.
\<close>

fun float_rank :: "pyfloat \<Rightarrow> nat \<times> real" where
  "float_rank NegInf = (0, 0)"
| "float_rank (Float r) = (1, r)"
| "float_rank PosInf = (2, 0)"
| "float_rank NaN = (3, 0)"

definition float_le :: "pyfloat \<Rightarrow> pyfloat \<Rightarrow> bool" where
  "float_le a b = (a \<noteq> NaN \<and> b \<noteq> NaN \<and> float_rank a \<le> float_rank b)"

text \<open>
  The n-best record is the result of \<^verbatim>\<open>json.loads\<close>: a Python dict from strings to
  JSON values. Strings are character lists. A dict is an association list in insertion
  order.
\<close>

datatype json =
    JNull
  | JBool bool
  | JNum pyfloat
  | JStr string
  | JList "json list"
  | JObj "(string \<times> json) list"

type_synonym pydict = "(string \<times> json) list"

datatype key = StrKey string | IntKey nat

datatype fmt_arg = ArgStr string | ArgStrs "string list"

text \<open>
  \<open>SockeyeError fmt args\<close> stands for \<^verbatim>\<open>SockeyeError(fmt % args)\<close>: the format string
  and the values formatted into it.
\<close>

datatype error =
    SockeyeError string "fmt_arg list"
  | KeyError key
  | IndexError
  | TypeError
  | UnboundLocalError string
  | ExternalError string

text \<open>List comprehension whose body may raise: the first error, in order, is the result.\<close>

fun map_result :: "('a \<Rightarrow> error + 'b) \<Rightarrow> 'a list \<Rightarrow> error + 'b list" where
  "map_result f [] = Inr []"
| "map_result f (x # xs) =
     (case f x of
        Inl e \<Rightarrow> Inl e
      | Inr y \<Rightarrow> (case map_result f xs of Inl e \<Rightarrow> Inl e | Inr ys \<Rightarrow> Inr (y # ys)))"

text \<open>\<^verbatim>\<open>d[k]\<close> and \<^verbatim>\<open>d[k] = v\<close> on a dict.\<close>

definition dict_getitem :: "pydict \<Rightarrow> string \<Rightarrow> error + json" where
  "dict_getitem d k = (case map_of d k of None \<Rightarrow> Inl (KeyError (StrKey k)) | Some v \<Rightarrow> Inr v)"

definition dict_setitem :: "pydict \<Rightarrow> string \<Rightarrow> json \<Rightarrow> pydict" where
  "dict_setitem d k v = AList.update k v d"

text \<open>\<^verbatim>\<open>len(x)\<close>, iteration over \<open>x\<close>, \<^verbatim>\<open>x[i]\<close> for an index \<open>i \<ge> 0\<close>, and truthiness.\<close>

fun py_len :: "json \<Rightarrow> error + nat" where
  "py_len (JList xs) = Inr (length xs)"
| "py_len (JStr s) = Inr (length s)"
| "py_len (JObj kvs) = Inr (length kvs)"
| "py_len JNull = Inl TypeError"
| "py_len (JBool b) = Inl TypeError"
| "py_len (JNum r) = Inl TypeError"

fun py_iter :: "json \<Rightarrow> error + json list" where
  "py_iter (JList xs) = Inr xs"
| "py_iter (JStr s) = Inr (map (\<lambda>c. JStr [c]) s)"
| "py_iter (JObj kvs) = Inr (map (\<lambda>kv. JStr (fst kv)) kvs)"
| "py_iter JNull = Inl TypeError"
| "py_iter (JBool b) = Inl TypeError"
| "py_iter (JNum r) = Inl TypeError"

fun py_getitem :: "json \<Rightarrow> nat \<Rightarrow> error + json" where
  "py_getitem (JList xs) i = (if i < length xs then Inr (xs ! i) else Inl IndexError)"
| "py_getitem (JStr s) i = (if i < length s then Inr (JStr [s ! i]) else Inl IndexError)"
| "py_getitem (JObj kvs) i = Inl (KeyError (IntKey i))"
| "py_getitem JNull i = Inl TypeError"
| "py_getitem (JBool b) i = Inl TypeError"
| "py_getitem (JNum r) i = Inl TypeError"

fun py_bool :: "json \<Rightarrow> bool" where
  "py_bool JNull = False"
| "py_bool (JBool b) = b"
| "py_bool (JNum r) = (r \<noteq> Float 0)"
| "py_bool (JStr s) = (s \<noteq> [])"
| "py_bool (JList xs) = (xs \<noteq> [])"
| "py_bool (JObj kvs) = (kvs \<noteq> [])"

definition startswith :: "string \<Rightarrow> string \<Rightarrow> bool" where
  "startswith s p = (take (length p) s = p)"

section \<open>Constants and score providers\<close>

text \<open>
  The metric identifiers live in the constants module, which is not part of the sources
  at hand; they are parameters of the model.
\<close>

record constants =
  RERANK_BLEU :: string
  RERANK_CHRF :: string
  RERANK_ISOMETRIC :: string
  RERANK_ISOMETRIC_LC :: string
  RERANK_METRICS :: "string list"

text \<open>
  The external scoring functions, also parameters. \<open>sentence_bleu P h refs smooth\<close> is the
  \<^verbatim>\<open>.score\<close> of \<^verbatim>\<open>sacrebleu.sentence_bleu(h, refs, smooth_method=smooth)\<close>,
  \<open>sentence_chrf P h refs\<close> the \<^verbatim>\<open>.score\<close> of \<^verbatim>\<open>sacrebleu.sentence_chrf(h, refs)\<close>, and
  \<open>compute_isometric_score P h s src m a\<close> is
  \<^verbatim>\<open>utils.compute_isometric_score(h, s, src, isometric_metric=m, isometric_alpha=a)\<close>.
  Each may raise.
\<close>

record providers =
  sentence_bleu :: "json \<Rightarrow> string list \<Rightarrow> string \<Rightarrow> error + pyfloat"
  sentence_chrf :: "json \<Rightarrow> string list \<Rightarrow> error + pyfloat"
  compute_isometric_score :: "json \<Rightarrow> json \<Rightarrow> json \<Rightarrow> string \<Rightarrow> pyfloat \<Rightarrow> error + pyfloat"

section \<open>The Reranker\<close>

text \<open>The bound scoring function: which callable, with the keyword arguments fixed by \<^verbatim>\<open>partial\<close>.\<close>

datatype scoring_function =
    SentenceBleu string
  | SentenceChrf
  | IsometricScore string pyfloat

record reranker =
  metric :: string
  isometric_alpha :: pyfloat
  return_score :: bool
  scoring_function :: scoring_function
  ranking_indices :: "pyfloat list \<Rightarrow> nat list"

text \<open>
  \<^verbatim>\<open>np.argsort(scores, kind='mergesort')\<close>: the indices \<open>0..N-1\<close> sorted by ascending score
  with a stable sort, the indices of NaN scores last. The reranker always passes
  \<^verbatim>\<open>kind='mergesort'\<close>.
\<close>

definition np_argsort :: "pyfloat list \<Rightarrow> nat list" where
  "np_argsort scores = sort_key (\<lambda>i. float_rank (scores ! i)) [0..<length scores]"

definition get_ranking_indices :: "pyfloat list \<Rightarrow> string \<Rightarrow> nat list" where
  "get_ranking_indices scores order =
     (if order = ''descending'' then rev (np_argsort scores) else np_argsort scores)"

definition Reranker_init :: "constants \<Rightarrow> string \<Rightarrow> pyfloat \<Rightarrow> bool \<Rightarrow> error + reranker" where
  "Reranker_init C m alpha rs =
     (case
        (if m = RERANK_BLEU C then Inr (SentenceBleu ''add-k'')
         else if m = RERANK_CHRF C then Inr SentenceChrf
         else if startswith m (RERANK_ISOMETRIC C) then Inr (IsometricScore m alpha)
         else Inl (SockeyeError ''Scoring metric '%s' unknown. Choices are: %s''
                     [ArgStr m, ArgStrs (RERANK_METRICS C)]))
      of
        Inl e \<Rightarrow> Inl e
      | Inr sf \<Rightarrow>
          Inr \<lparr>metric = m, isometric_alpha = alpha, return_score = rs, scoring_function = sf,
               ranking_indices =
                 (if m = RERANK_ISOMETRIC_LC C
                  then (\<lambda>scores. get_ranking_indices scores ''ascending'')
                  else (\<lambda>scores. get_ranking_indices scores ''descending''))\<rparr>)"

text \<open>
  \<^verbatim>\<open>self.scoring_function(hypothesis, [reference]).score\<close>. Construction never binds the
  isometric callable for the BLEU or ChrF identifier; called like this it would lack its
  third positional argument, which is a TypeError.
\<close>

fun call_with_reference :: "providers \<Rightarrow> scoring_function \<Rightarrow> json \<Rightarrow> string list \<Rightarrow> error + pyfloat" where
  "call_with_reference P (SentenceBleu smooth) h refs = sentence_bleu P h refs smooth"
| "call_with_reference P SentenceChrf h refs = sentence_chrf P h refs"
| "call_with_reference P (IsometricScore m a) h refs = Inl TypeError"

text \<open>
  \<^verbatim>\<open>self.scoring_function(hypothesis, hypothesis_score[0], source)\<close>. With an overlap
  callable bound, this call is reached only if the BLEU or ChrF identifier itself starts
  with the isometric prefix; its arguments then do not fit the callable (a third positional
  argument beside the keyword \<^verbatim>\<open>smooth_method\<close>, a model score in the place of the
  references), which is a TypeError.
\<close>

fun call_with_source :: "providers \<Rightarrow> scoring_function \<Rightarrow> json \<Rightarrow> json \<Rightarrow> json \<Rightarrow> error + pyfloat" where
  "call_with_source P (IsometricScore m a) h s src = compute_isometric_score P h s src m a"
| "call_with_source P (SentenceBleu smooth) h s src = Inl TypeError"
| "call_with_source P SentenceChrf h s src = Inl TypeError"

definition ranksort :: "nat list \<Rightarrow> json \<Rightarrow> error + json" where
  "ranksort ranking l =
     (case l of
        JList xs \<Rightarrow>
          (case map_result (\<lambda>i. if i < length xs then Inr (xs ! i) else Inl IndexError) ranking of
             Inl e \<Rightarrow> Inl e
           | Inr ys \<Rightarrow> Inr (JList ys))
      | _ \<Rightarrow> Inr l)"

definition sort_by_ranking :: "pydict \<Rightarrow> nat list \<Rightarrow> error + pydict" where
  "sort_by_ranking hypotheses ranking =
     map_result
       (\<lambda>kv. case ranksort ranking (snd kv) of Inl e \<Rightarrow> Inl e | Inr v \<Rightarrow> Inr (fst kv, v))
       hypotheses"

text \<open>The branch of \<^verbatim>\<open>Reranker.rerank\<close> for the BLEU and ChrF metrics.\<close>

definition score_bleu_chrf :: "providers \<Rightarrow> reranker \<Rightarrow> pydict \<Rightarrow> string \<Rightarrow> error + (pyfloat list \<times> nat list)" where
  "score_bleu_chrf P rr hypotheses reference =
     (case dict_getitem hypotheses ''translations'' of
        Inl e \<Rightarrow> Inl e
      | Inr ts \<Rightarrow>
     (case py_iter ts of
        Inl e \<Rightarrow> Inl e
      | Inr hs \<Rightarrow>
     (case map_result (\<lambda>h. call_with_reference P (scoring_function rr) h [reference]) hs of
        Inl e \<Rightarrow> Inl e
      | Inr scores \<Rightarrow> Inr (scores, ranking_indices rr scores))))"

text \<open>The branch for the isometric metrics; \<^verbatim>\<open>zip\<close> stops at the shorter sequence.\<close>

definition score_isometric :: "providers \<Rightarrow> reranker \<Rightarrow> pydict \<Rightarrow> error + (pyfloat list \<times> nat list)" where
  "score_isometric P rr hypotheses =
     (case dict_getitem hypotheses ''text'' of
        Inl e \<Rightarrow> Inl e
      | Inr source \<Rightarrow>
     (case dict_getitem hypotheses ''translations'' of
        Inl e \<Rightarrow> Inl e
      | Inr ts \<Rightarrow>
     (case dict_getitem hypotheses ''scores'' of
        Inl e \<Rightarrow> Inl e
      | Inr ss \<Rightarrow>
     (case py_iter ts of
        Inl e \<Rightarrow> Inl e
      | Inr hs \<Rightarrow>
     (case py_iter ss of
        Inl e \<Rightarrow> Inl e
      | Inr hss \<Rightarrow>
     (case map_result
             (\<lambda>p. case py_getitem (snd p) 0 of
                     Inl e \<Rightarrow> Inl e
                   | Inr s0 \<Rightarrow> call_with_source P (scoring_function rr) (fst p) s0 source)
             (zip hs hss) of
        Inl e \<Rightarrow> Inl e
      | Inr scores \<Rightarrow> Inr (scores, ranking_indices rr scores)))))))"

text \<open>
  The two \<^verbatim>\<open>if\<close> statements of \<^verbatim>\<open>Reranker.rerank\<close>, in sequence; the second overwrites
  what the first has set. If neither runs, the use of \<^verbatim>\<open>ranking\<close> that follows raises.
\<close>

definition score_and_rank :: "constants \<Rightarrow> providers \<Rightarrow> reranker \<Rightarrow> pydict \<Rightarrow> string \<Rightarrow> error + (pyfloat list \<times> nat list)" where
  "score_and_rank C P rr hypotheses reference =
     (case
        (if metric rr = RERANK_BLEU C \<or> metric rr = RERANK_CHRF C
         then (case score_bleu_chrf P rr hypotheses reference of
                 Inl e \<Rightarrow> Inl e | Inr sr \<Rightarrow> Inr (Some sr))
         else Inr None)
      of
        Inl e \<Rightarrow> Inl e
      | Inr st1 \<Rightarrow>
     (case
        (if startswith (metric rr) (RERANK_ISOMETRIC C)
         then (case score_isometric P rr hypotheses of
                 Inl e \<Rightarrow> Inl e | Inr sr \<Rightarrow> Inr (Some sr))
         else Inr st1)
      of
        Inl e \<Rightarrow> Inl e
      | Inr None \<Rightarrow> Inl (UnboundLocalError ''ranking'')
      | Inr (Some sr) \<Rightarrow> Inr sr))"

definition attach_scores :: "pydict \<Rightarrow> pyfloat list \<Rightarrow> nat list \<Rightarrow> error + pydict" where
  "attach_scores reranked scores ranking =
     (case map_result (\<lambda>i. if i < length scores then Inr (JNum (scores ! i)) else Inl IndexError)
             ranking of
        Inl e \<Rightarrow> Inl e
      | Inr sorted_scores \<Rightarrow>
     (let reranked1 = dict_setitem reranked ''scores'' (JList sorted_scores) in
      case dict_getitem reranked1 ''scores'' of
        Inl e \<Rightarrow> Inl e
      | Inr ss \<Rightarrow>
     (case py_getitem ss 0 of
        Inl e \<Rightarrow> Inl e
      | Inr best \<Rightarrow> Inr (dict_setitem reranked1 ''score'' best))))"

definition Reranker_rerank :: "constants \<Rightarrow> providers \<Rightarrow> reranker \<Rightarrow> pydict \<Rightarrow> string \<Rightarrow> error + pydict" where
  "Reranker_rerank C P rr hypotheses reference =
     (case score_and_rank C P rr hypotheses reference of
        Inl e \<Rightarrow> Inl e
      | Inr (scores, ranking) \<Rightarrow>
     (case sort_by_ranking hypotheses ranking of
        Inl e \<Rightarrow> Inl e
      | Inr reranked_hypotheses \<Rightarrow>
          if return_score rr then attach_scores reranked_hypotheses scores ranking
          else Inr reranked_hypotheses))"

section \<open>The driver loop\<close>

record args =
  arg_metric :: string
  arg_isometric_alpha :: pyfloat
  arg_return_score :: bool
  output_best :: bool
  output_reference_instead_of_blank :: bool
  output_best_non_blank :: bool

datatype printed = PrintBest json | PrintJson pydict

text \<open>
  Modelled from the spec: \<^verbatim>\<open>utils.check_condition\<close> is not among the sources; a record
  without \<^verbatim>\<open>translations\<close> is a schema error that is fatal and propagated to the caller.
\<close>

definition check_condition :: "bool \<Rightarrow> string \<Rightarrow> error + unit" where
  "check_condition condition error_message =
     (if condition then Inr () else Inl (SockeyeError error_message []))"

text \<open>Lines 135 to 143: the number of hypotheses and the (possibly reranked) record.\<close>

definition rerank_or_keep :: "constants \<Rightarrow> providers \<Rightarrow> reranker \<Rightarrow> pydict \<Rightarrow> string \<Rightarrow> error + (nat \<times> pydict)" where
  "rerank_or_keep C P rr hypotheses reference =
     (case check_condition (map_of hypotheses ''translations'' \<noteq> None)
             ''Reranking requires nbest JSON input with 'translations' key present.'' of
        Inl e \<Rightarrow> Inl e
      | Inr u \<Rightarrow>
     (case dict_getitem hypotheses ''translations'' of
        Inl e \<Rightarrow> Inl e
      | Inr ts \<Rightarrow>
     (case py_len ts of
        Inl e \<Rightarrow> Inl e
      | Inr num_hypotheses \<Rightarrow>
          if \<not> num_hypotheses > 1 then Inr (num_hypotheses, hypotheses)
          else (case Reranker_rerank C P rr hypotheses reference of
                  Inl e \<Rightarrow> Inl e
                | Inr reranked_hypotheses \<Rightarrow> Inr (num_hypotheses, reranked_hypotheses)))))"

text \<open>The \<^verbatim>\<open>for h in range(num_hypotheses)\<close> loop with its \<^verbatim>\<open>continue\<close> and \<^verbatim>\<open>break\<close>.\<close>

fun scan_non_blank :: "pydict \<Rightarrow> json \<Rightarrow> nat list \<Rightarrow> error + json" where
  "scan_non_blank reranked_hypotheses best_hypothesis [] = Inr best_hypothesis"
| "scan_non_blank reranked_hypotheses best_hypothesis (h # hs) =
     (case dict_getitem reranked_hypotheses ''translations'' of
        Inl e \<Rightarrow> Inl e
      | Inr ts \<Rightarrow>
     (case py_getitem ts h of
        Inl e \<Rightarrow> Inl e
      | Inr b \<Rightarrow>
          if \<not> py_bool b then scan_non_blank reranked_hypotheses b hs else Inr b))"

text \<open>Lines 146 to 162: the hypothesis that is printed in best-hypothesis mode.\<close>

definition select_best :: "args \<Rightarrow> string \<Rightarrow> nat \<Rightarrow> pydict \<Rightarrow> error + json" where
  "select_best a reference num_hypotheses reranked_hypotheses =
     (case
        (if num_hypotheses \<noteq> 0
         then (case dict_getitem reranked_hypotheses ''translations'' of
                 Inl e \<Rightarrow> Inl e
               | Inr ts \<Rightarrow> py_getitem ts 0)
         else Inr (JStr ''''))
      of
        Inl e \<Rightarrow> Inl e
      | Inr best0 \<Rightarrow>
     (let best1 = (if \<not> py_bool best0 \<and> output_reference_instead_of_blank a
                   then JStr reference else best0)
      in if \<not> py_bool best1 \<and> output_best_non_blank a \<and> num_hypotheses > 1
         then scan_non_blank reranked_hypotheses best1 [0..<num_hypotheses]
         else Inr best1))"

text \<open>The body of the loop for one pair of a (stripped) reference and a parsed record.\<close>

definition rerank_line :: "constants \<Rightarrow> providers \<Rightarrow> args \<Rightarrow> reranker \<Rightarrow> string \<Rightarrow> pydict \<Rightarrow> error + printed" where
  "rerank_line C P a rr reference hypotheses =
     (case rerank_or_keep C P rr hypotheses reference of
        Inl e \<Rightarrow> Inl e
      | Inr (num_hypotheses, reranked_hypotheses) \<Rightarrow>
          if output_best a
          then (case select_best a reference num_hypotheses reranked_hypotheses of
                  Inl e \<Rightarrow> Inl e
                | Inr best_hypothesis \<Rightarrow> Inr (PrintBest best_hypothesis))
          else Inr (PrintJson reranked_hypotheses))"

text \<open>
  The whole loop: what was printed, and the error that stopped it, if any. The streams are
  given as the list of stripped reference lines and the list of parsed records.
\<close>

fun rerank_lines :: "constants \<Rightarrow> providers \<Rightarrow> args \<Rightarrow> reranker \<Rightarrow> (string \<times> pydict) list \<Rightarrow> printed list \<times> error option" where
  "rerank_lines C P a rr [] = ([], None)"
| "rerank_lines C P a rr (l # ls) =
     (case rerank_line C P a rr (fst l) (snd l) of
        Inl e \<Rightarrow> ([], Some e)
      | Inr out \<Rightarrow> (case rerank_lines C P a rr ls of (outs, err) \<Rightarrow> (out # outs, err)))"

definition rerank :: "constants \<Rightarrow> providers \<Rightarrow> args \<Rightarrow> string list \<Rightarrow> pydict list \<Rightarrow> printed list \<times> error option" where
  "rerank C P a reference hypotheses =
     (case Reranker_init C (arg_metric a) (arg_isometric_alpha a) (arg_return_score a) of
        Inl e \<Rightarrow> ([], Some e)
      | Inr rr \<Rightarrow> rerank_lines C P a rr (zip reference hypotheses))"

section \<open>An instance of the parameters\<close>

text \<open>
  Concrete identifiers and stand-in scoring functions, on which the model is evaluated:
  the overlap metrics are replaced by the length of the hypothesis, the isometric score
  by the model score it is given.
\<close>

definition sockeye_constants :: constants where
  "sockeye_constants =
     \<lparr>RERANK_BLEU = ''bleu'', RERANK_CHRF = ''chrf'', RERANK_ISOMETRIC = ''isometric'',
      RERANK_ISOMETRIC_LC = ''isometric-lc'',
      RERANK_METRICS = [''bleu'', ''chrf'', ''isometric-ratio'', ''isometric-diff'', ''isometric-lc'']\<rparr>"

definition length_score :: "json \<Rightarrow> error + pyfloat" where
  "length_score h = (case h of JStr s \<Rightarrow> Inr (Float (real (length s))) | _ \<Rightarrow> Inl TypeError)"

definition model_score :: "json \<Rightarrow> error + pyfloat" where
  "model_score s = (case s of JNum r \<Rightarrow> Inr r | _ \<Rightarrow> Inl TypeError)"

definition stand_in_providers :: providers where
  "stand_in_providers =
     \<lparr>sentence_bleu = (\<lambda>h refs smooth. length_score h),
      sentence_chrf = (\<lambda>h refs. length_score h),
      compute_isometric_score = (\<lambda>h s src m a. model_score s)\<rparr>"

text \<open>Construction followed by one call of \<^verbatim>\<open>rerank\<close>.\<close>

definition construct_and_rerank :: "constants \<Rightarrow> providers \<Rightarrow> string \<Rightarrow> pyfloat \<Rightarrow> bool \<Rightarrow> pydict \<Rightarrow> string \<Rightarrow> error + pydict" where
  "construct_and_rerank C P m alpha rs hypotheses reference =
     (case Reranker_init C m alpha rs of
        Inl e \<Rightarrow> Inl e
      | Inr rr \<Rightarrow> Reranker_rerank C P rr hypotheses reference)"

section \<open>Concrete inputs\<close>

text \<open>
  Two rerankers as construction returns them, two n-best records and one set of driver
  arguments, on which the theorems below are instantiated.
\<close>

definition bleu_reranker :: "bool \<Rightarrow> reranker" where
  "bleu_reranker rs =
     \<lparr>metric = ''bleu'', isometric_alpha = Float (1/2), return_score = rs,
      scoring_function = SentenceBleu ''add-k'',
      ranking_indices = (\<lambda>scores. get_ranking_indices scores ''descending'')\<rparr>"

definition lc_reranker :: "bool \<Rightarrow> reranker" where
  "lc_reranker rs =
     \<lparr>metric = ''isometric-lc'', isometric_alpha = Float (1/2), return_score = rs,
      scoring_function = IsometricScore ''isometric-lc'' (Float (1/2)),
      ranking_indices = (\<lambda>scores. get_ranking_indices scores ''ascending'')\<rparr>"

definition nbest_example :: pydict where
  "nbest_example =
     [(''translations'', JList [JStr ''a'', JStr ''bbb'', JStr ''cc'']),
      (''scores'', JList [JList [JNum (Float 2)], JList [JNum (Float 1)], JList [JNum (Float 3)]]),
      (''text'', JStr ''src''),
      (''sentence_id'', JNum (Float 7))]"

definition blank_first_example :: pydict where
  "blank_first_example =
     [(''translations'', JList [JStr ''good translation'', JStr '''', JStr '''']),
      (''scores'', JList [JList [JNum (Float 3)], JList [JNum (Float 1)], JList [JNum (Float 2)]]),
      (''text'', JStr ''src'')]"

definition best_args :: args where
  "best_args =
     \<lparr>arg_metric = ''isometric-lc'', arg_isometric_alpha = Float (1/2), arg_return_score = False,
      output_best = True, output_reference_instead_of_blank = False,
      output_best_non_blank = True\<rparr>"

section \<open>Comprehensions and dictionaries\<close>

lemma map_result_Inr_D:
  "map_result f xs = Inr ys \<Longrightarrow> list_all2 (\<lambda>x y. f x = Inr y) xs ys"
  by (induction xs arbitrary: ys) (auto split: sum.splits)

lemma map_result_Inr_I:
  "list_all2 (\<lambda>x y. f x = Inr y) xs ys \<Longrightarrow> map_result f xs = Inr ys"
  by (induction rule: list_all2_induct) simp_all

lemma map_result_Inr_iff:
  "map_result f xs = Inr ys \<longleftrightarrow> list_all2 (\<lambda>x y. f x = Inr y) xs ys"
  using map_result_Inr_D map_result_Inr_I by blast

lemma map_result_length: "map_result f xs = Inr ys \<Longrightarrow> length ys = length xs"
  by (simp add: map_result_Inr_iff list_all2_lengthD)

lemma map_result_index:
  "map_result (\<lambda>i. if i < n then Inr (g i) else Inl IndexError) is =
     (if \<forall>i\<in>set is. i < n then Inr (map g is) else Inl IndexError)"
  by (induction "is") auto

lemma map_result_total:
  "(\<forall>x\<in>set xs. \<exists>y. f x = Inr y) \<Longrightarrow> \<exists>ys. map_result f xs = Inr ys"
  by (induction xs) auto

lemma update_key_set: "set (map fst (AList.update k v al)) = insert k (set (map fst al))"
  by (auto simp: update_keys)

text \<open>The equations that evaluate the model on a concrete input.\<close>

lemmas eval_defs = construct_and_rerank_def Reranker_init_def Reranker_rerank_def
  score_and_rank_def score_bleu_chrf_def score_isometric_def sort_by_ranking_def ranksort_def
  attach_scores_def dict_getitem_def dict_setitem_def get_ranking_indices_def np_argsort_def
  sockeye_constants_def stand_in_providers_def length_score_def model_score_def startswith_def
  map_result_index

lemmas example_defs = bleu_reranker_def lc_reranker_def nbest_example_def
  blank_first_example_def best_args_def

section \<open>The ranking is a sorted permutation of the indices\<close>

lemma float_rank_inj: "float_rank a = float_rank b \<longleftrightarrow> a = b"
  by (cases a; cases b) auto

lemma float_le_rank: "a \<noteq> NaN \<Longrightarrow> b \<noteq> NaN \<Longrightarrow> float_le a b \<longleftrightarrow> float_rank a \<le> float_rank b"
  by (simp add: float_le_def)

lemma mset_np_argsort: "mset (np_argsort scores) = mset [0..<length scores]"
  by (simp add: np_argsort_def)

lemma set_np_argsort: "set (np_argsort scores) = {0..<length scores}"
  by (simp add: np_argsort_def)

lemma length_np_argsort: "length (np_argsort scores) = length scores"
  by (simp add: np_argsort_def)

lemma distinct_np_argsort: "distinct (np_argsort scores)"
  by (simp add: np_argsort_def)

lemma sorted_np_argsort: "sorted (map (\<lambda>i. float_rank (scores ! i)) (np_argsort scores))"
  by (simp add: np_argsort_def)

lemma np_argsort_nonempty: "scores \<noteq> [] \<Longrightarrow> np_argsort scores \<noteq> []"
  using length_np_argsort [of scores] by auto

lemma mset_get_ranking_indices: "mset (get_ranking_indices scores order) = mset [0..<length scores]"
  by (simp add: get_ranking_indices_def mset_np_argsort)

lemma set_get_ranking_indices: "set (get_ranking_indices scores order) = {0..<length scores}"
  by (simp add: get_ranking_indices_def set_np_argsort)

lemma length_get_ranking_indices: "length (get_ranking_indices scores order) = length scores"
  by (simp add: get_ranking_indices_def length_np_argsort)

lemma ranked_scores_subset:
  "set (map (\<lambda>i. scores ! i) (get_ranking_indices scores order)) = set scores"
proof -
  have "set (map (\<lambda>i. scores ! i) (get_ranking_indices scores order))
          = (\<lambda>i. scores ! i) ` {0..<length scores}"
    by (simp add: set_get_ranking_indices)
  also have "\<dots> = set (map (\<lambda>i. scores ! i) [0..<length scores])" by simp
  also have "\<dots> = set scores" by (simp only: map_nth)
  finally show ?thesis .
qed

lemma ranking_first_in_scores:
  assumes "scores \<noteq> []"
  shows "scores ! hd (get_ranking_indices scores order) \<in> set scores"
proof -
  have "get_ranking_indices scores order \<noteq> []"
    using assms length_get_ranking_indices [of scores order] by auto
  then have "hd (get_ranking_indices scores order) \<in> set (get_ranking_indices scores order)"
    by simp
  then show ?thesis by (simp add: set_get_ranking_indices)
qed

text \<open>
  Scores read in ranking order are monotone in the order in which numpy sorts them, and in
  Python's comparison when no score is NaN. The first index of a ranking holds a score
  that numpy sorts last (descending) or first (ascending).
\<close>

lemma sorted_last_greatest:
  fixes xs :: "'a::linorder list"
  assumes "sorted xs" "y \<in> set xs"
  shows "y \<le> last xs"
proof -
  have ne: "xs \<noteq> []" using assms(2) by auto
  obtain i where "i < length xs" "xs ! i = y"
    using assms(2) by (auto simp: in_set_conv_nth)
  then show ?thesis
    using assms(1) ne sorted_nth_mono [of xs i "length xs - 1"] by (simp add: last_conv_nth)
qed

lemma sorted_hd_least:
  fixes xs :: "'a::linorder list"
  assumes "sorted xs" "y \<in> set xs"
  shows "hd xs \<le> y"
  using assms by (cases xs) auto

lemma rank_in_sorted:
  assumes "s \<in> set scores"
  shows "float_rank s \<in> set (map (\<lambda>i. float_rank (scores ! i)) (np_argsort scores))"
proof -
  obtain i where "i < length scores" "scores ! i = s"
    using assms by (auto simp: in_set_conv_nth)
  then show ?thesis by (auto simp: set_np_argsort)
qed

lemma descending_first_greatest:
  assumes "s \<in> set scores"
  shows "float_rank s \<le> float_rank (scores ! hd (get_ranking_indices scores ''descending''))"
proof -
  let ?xs = "map (\<lambda>i. float_rank (scores ! i)) (np_argsort scores)"
  have "scores \<noteq> []" using assms by auto
  then have ne: "np_argsort scores \<noteq> []" by (rule np_argsort_nonempty)
  have "float_rank s \<le> last ?xs"
    using sorted_last_greatest [OF sorted_np_argsort rank_in_sorted [OF assms]] .
  also have "last ?xs = float_rank (scores ! hd (rev (np_argsort scores)))"
    using ne by (simp add: hd_rev last_map)
  finally show ?thesis by (simp add: get_ranking_indices_def)
qed

lemma ascending_first_least:
  assumes "s \<in> set scores"
  shows "float_rank (scores ! hd (get_ranking_indices scores ''ascending'')) \<le> float_rank s"
proof -
  let ?xs = "map (\<lambda>i. float_rank (scores ! i)) (np_argsort scores)"
  have "scores \<noteq> []" using assms by auto
  then have ne: "np_argsort scores \<noteq> []" by (rule np_argsort_nonempty)
  have "hd ?xs \<le> float_rank s"
    using sorted_hd_least [OF sorted_np_argsort rank_in_sorted [OF assms]] .
  moreover have "hd ?xs = float_rank (scores ! hd (np_argsort scores))"
    using ne by (simp add: hd_map)
  ultimately show ?thesis by (simp add: get_ranking_indices_def)
qed

lemma ascending_sorted:
  "sorted_wrt (\<lambda>a b. float_rank a \<le> float_rank b)
     (map (\<lambda>i. scores ! i) (get_ranking_indices scores ''ascending''))"
  using sorted_np_argsort [of scores]
  by (simp add: get_ranking_indices_def sorted_map sorted_wrt_map)

lemma descending_sorted:
  "sorted_wrt (\<lambda>a b. float_rank b \<le> float_rank a)
     (map (\<lambda>i. scores ! i) (get_ranking_indices scores ''descending''))"
proof -
  have "sorted_wrt (\<lambda>a b. float_rank a \<le> float_rank b) (map (\<lambda>i. scores ! i) (np_argsort scores))"
    using sorted_np_argsort [of scores] by (simp add: sorted_map sorted_wrt_map)
  then have "sorted_wrt (\<lambda>a b. float_rank b \<le> float_rank a)
               (rev (map (\<lambda>i. scores ! i) (np_argsort scores)))"
    by (simp only: sorted_wrt_rev)
  then show ?thesis by (simp add: get_ranking_indices_def rev_map)
qed

lemma sorted_wrt_rank_le:
  assumes "sorted_wrt (\<lambda>a b. float_rank a \<le> float_rank b) xs" "NaN \<notin> set xs"
  shows "sorted_wrt float_le xs"
  using assms
  by (induction xs) (auto simp: float_le_def)

lemma sorted_wrt_rank_ge:
  assumes "sorted_wrt (\<lambda>a b. float_rank b \<le> float_rank a) xs" "NaN \<notin> set xs"
  shows "sorted_wrt (\<lambda>a b. float_le b a) xs"
  using assms
  by (induction xs) (auto simp: float_le_def)

text \<open>
  Ties: ascending order keeps equal scores in input order; descending order, being the
  reversal of the ascending one, lists them in reverse input order.
\<close>

lemma ascending_stable:
  "filter (\<lambda>i. scores ! i = k) (get_ranking_indices scores ''ascending'')
     = filter (\<lambda>i. scores ! i = k) [0..<length scores]"
  using sort_key_stable [of "\<lambda>i. float_rank (scores ! i)" "float_rank k" "[0..<length scores]"]
  by (simp add: get_ranking_indices_def np_argsort_def float_rank_inj)

lemma descending_reverses_ties:
  "filter (\<lambda>i. scores ! i = k) (get_ranking_indices scores ''descending'')
     = rev (filter (\<lambda>i. scores ! i = k) [0..<length scores])"
  using sort_key_stable [of "\<lambda>i. float_rank (scores ! i)" "float_rank k" "[0..<length scores]"]
  by (simp add: get_ranking_indices_def np_argsort_def float_rank_inj rev_filter [symmetric])

lemma equal_scores_descending:
  "get_ranking_indices [s, s] ''descending'' = [1, 0]"
  by (simp add: get_ranking_indices_def np_argsort_def upt_rec)

section \<open>Construction and the steps of \<^verbatim>\<open>Reranker.rerank\<close>\<close>

lemma init_ranking_indices:
  assumes "Reranker_init C m alpha rs = Inr rr"
  shows "ranking_indices rr =
           (\<lambda>scores. get_ranking_indices scores
              (if m = RERANK_ISOMETRIC_LC C then ''ascending'' else ''descending''))"
    and "metric rr = m" and "return_score rr = rs" and "isometric_alpha rr = alpha"
  using assms by (auto simp: Reranker_init_def split: if_splits)

lemma init_bleu: "Reranker_init sockeye_constants ''bleu'' (Float (1/2)) rs = Inr (bleu_reranker rs)"
  by (simp add: Reranker_init_def sockeye_constants_def bleu_reranker_def)

lemma init_lc: "Reranker_init sockeye_constants ''isometric-lc'' (Float (1/2)) rs = Inr (lc_reranker rs)"
  by (simp add: Reranker_init_def sockeye_constants_def lc_reranker_def startswith_def)

lemma score_and_rank_ranking:
  assumes "score_and_rank C P rr hyps reference = Inr (scores, ranking)"
  shows "ranking = ranking_indices rr scores"
  using assms
  by (auto simp: score_and_rank_def score_bleu_chrf_def score_isometric_def
           split: if_splits sum.splits option.splits)

lemma init_ranking:
  assumes "Reranker_init C m alpha rs = Inr rr"
    and "score_and_rank C P rr hypotheses reference = Inr (scores, ranking)"
  shows "ranking = get_ranking_indices scores
           (if m = RERANK_ISOMETRIC_LC C then ''ascending'' else ''descending'')"
  using score_and_rank_ranking [OF assms(2)] init_ranking_indices(1) [OF assms(1)] by simp

lemma init_ranking_mset:
  assumes "Reranker_init C m alpha rs = Inr rr"
    and "score_and_rank C P rr hypotheses reference = Inr (scores, ranking)"
  shows "mset ranking = mset [0..<length scores]"
  using score_and_rank_ranking [OF assms(2)] init_ranking_indices(1) [OF assms(1)]
  by (simp add: mset_get_ranking_indices)

lemma score_and_rank_length:
  assumes "score_and_rank C P rr hypotheses reference = Inr (scores, ranking)"
    and "map_of hypotheses ''translations'' = Some (JList ts)"
    and "startswith (metric rr) (RERANK_ISOMETRIC C) \<Longrightarrow>
           \<exists>ss. map_of hypotheses ''scores'' = Some (JList ss) \<and> length ss = length ts"
  shows "length scores = length ts"
proof (cases "startswith (metric rr) (RERANK_ISOMETRIC C)")
  case True
  then obtain ss where ss: "map_of hypotheses ''scores'' = Some (JList ss)" "length ss = length ts"
    using assms(3) by blast
  from assms(1) True have "score_isometric P rr hypotheses = Inr (scores, ranking)"
    by (auto simp: score_and_rank_def split: if_splits sum.splits option.splits)
  then show ?thesis using assms(2) ss
    by (auto simp: score_isometric_def dict_getitem_def split: sum.splits option.splits
             dest!: map_result_length)
next
  case False
  with assms(1) have "score_bleu_chrf P rr hypotheses reference = Inr (scores, ranking)"
    by (auto simp: score_and_rank_def split: if_splits sum.splits option.splits)
  then show ?thesis using assms(2)
    by (auto simp: score_bleu_chrf_def dict_getitem_def split: sum.splits option.splits
             dest!: map_result_length)
qed

lemma rerank_list_field_length:
  assumes "Reranker_init C m alpha rs = Inr rr"
    and "score_and_rank C P rr hypotheses reference = Inr (scores, ranking)"
    and "\<forall>i\<in>set ranking. i < n"
  shows "length ranking \<le> n"
proof -
  have perm: "mset ranking = mset [0..<length scores]"
    using init_ranking_mset [OF assms(1) assms(2)] .
  then have set_r: "set ranking = {0..<length scores}"
    by (metis mset_eq_setD set_upt)
  have len: "length ranking = length scores"
    using perm by (metis length_upt mset_eq_length minus_nat.diff_0)
  show ?thesis
  proof (cases "length scores")
    case 0
    then show ?thesis using len by simp
  next
    case (Suc k)
    then have "k \<in> set ranking" using set_r by simp
    then show ?thesis using assms(3) Suc len by auto
  qed
qed

lemma ranksort_list:
  "ranksort ranking (JList xs) = Inr v \<longleftrightarrow>
     (\<forall>i\<in>set ranking. i < length xs) \<and> v = JList (map (\<lambda>i. xs ! i) ranking)"
  by (auto simp: ranksort_def map_result_index)

lemma ranksort_non_list:
  "(\<And>xs. l \<noteq> JList xs) \<Longrightarrow> ranksort ranking l = Inr l"
  by (cases l) (auto simp: ranksort_def)

lemma sort_by_ranking_keys:
  "sort_by_ranking hyps ranking = Inr out \<Longrightarrow> map fst out = map fst hyps"
  unfolding sort_by_ranking_def
  by (induction hyps arbitrary: out) (auto split: sum.splits)

lemma sort_by_ranking_lookup:
  "sort_by_ranking hyps ranking = Inr out \<Longrightarrow> map_of hyps k = Some v \<Longrightarrow>
     \<exists>v'. ranksort ranking v = Inr v' \<and> map_of out k = Some v'"
  unfolding sort_by_ranking_def
  by (induction hyps arbitrary: out) (auto split: sum.splits if_splits)

lemma sort_by_ranking_lookup_None:
  "sort_by_ranking hyps ranking = Inr out \<Longrightarrow> map_of hyps k = None \<Longrightarrow> map_of out k = None"
  unfolding sort_by_ranking_def
  by (induction hyps arbitrary: out) (auto split: sum.splits if_splits)

lemma attach_scores_Inr:
  "attach_scores reranked scores ranking = Inr out \<longleftrightarrow>
     (\<forall>i\<in>set ranking. i < length scores) \<and> ranking \<noteq> [] \<and>
     out = dict_setitem
             (dict_setitem reranked ''scores'' (JList (map (\<lambda>i. JNum (scores ! i)) ranking)))
             ''score'' (JNum (scores ! hd ranking))"
  by (cases ranking)
     (auto simp: attach_scores_def map_result_index dict_getitem_def dict_setitem_def
                 update_conv' Let_def)

lemma rerank_score_and_rank:
  assumes "Reranker_rerank C P rr hypotheses reference = Inr out"
  obtains scores ranking where "score_and_rank C P rr hypotheses reference = Inr (scores, ranking)"
  using assms by (auto simp: Reranker_rerank_def split: sum.splits)

lemma rerank_lookup_other:
  assumes "Reranker_rerank C P rr hypotheses reference = Inr out"
    and "score_and_rank C P rr hypotheses reference = Inr (scores, ranking)"
    and "\<not> return_score rr \<or> (k \<noteq> ''scores'' \<and> k \<noteq> ''score'')"
  shows "\<exists>reranked. sort_by_ranking hypotheses ranking = Inr reranked \<and>
           map_of out k = map_of reranked k"
  using assms
  by (auto simp: Reranker_rerank_def attach_scores_Inr dict_setitem_def update_conv'
           split: sum.splits if_splits)

lemma rerank_field:
  assumes "score_and_rank C P rr hypotheses reference = Inr (scores, ranking)"
    and "Reranker_rerank C P rr hypotheses reference = Inr out"
    and "map_of hypotheses k = Some v"
    and "\<not> return_score rr \<or> (k \<noteq> ''scores'' \<and> k \<noteq> ''score'')"
  shows "\<exists>v'. ranksort ranking v = Inr v' \<and> map_of out k = Some v'"
proof -
  obtain reranked where r: "sort_by_ranking hypotheses ranking = Inr reranked"
      "map_of out k = map_of reranked k"
    using rerank_lookup_other [OF assms(2) assms(1) assms(4)] by blast
  show ?thesis using sort_by_ranking_lookup [OF r(1) assms(3)] r(2) by simp
qed

lemma rerank_fields:
  assumes "Reranker_init C m alpha rs = Inr rr"
    and "score_and_rank C P rr hypotheses reference = Inr (scores, ranking)"
    and "Reranker_rerank C P rr hypotheses reference = Inr out"
    and "map_of hypotheses k = Some v"
    and "\<not> rs \<or> (k \<noteq> ''scores'' \<and> k \<noteq> ''score'')"
  shows "(\<forall>xs. v = JList xs \<longrightarrow>
            length scores \<le> length xs \<and>
            map_of out k = Some (JList (map (\<lambda>i. xs ! i) ranking))) \<and>
         ((\<forall>xs. v \<noteq> JList xs) \<longrightarrow> map_of out k = Some v)"
proof -
  have perm: "mset ranking = mset [0..<length scores]"
    using init_ranking_mset [OF assms(1) assms(2)] .
  then have set_r: "set ranking = {0..<length scores}"
    by (metis mset_eq_setD set_upt)
  have "return_score rr = rs" using init_ranking_indices(3) [OF assms(1)] .
  then obtain v' where v': "ranksort ranking v = Inr v'" "map_of out k = Some v'"
    using rerank_field [OF assms(2) assms(3) assms(4)] assms(5) by auto
  have "length scores \<le> length xs \<and> map_of out k = Some (JList (map (\<lambda>i. xs ! i) ranking))"
    if "v = JList xs" for xs
  proof -
    from v' that have a: "\<forall>i\<in>set ranking. i < length xs" and b: "v' = JList (map (\<lambda>i. xs ! i) ranking)"
      by (simp_all add: ranksort_list)
    have "length scores \<le> length xs"
    proof (cases "length scores")
      case 0
      then show ?thesis by simp
    next
      case (Suc n)
      then have "n \<in> set ranking" using set_r by simp
      then show ?thesis using a Suc by auto
    qed
    then show ?thesis using b v'(2) by simp
  qed
  moreover have "map_of out k = Some v" if "\<forall>xs. v \<noteq> JList xs"
    using v' that ranksort_non_list [of v ranking] by simp
  ultimately show ?thesis by blast
qed

lemma rerank_translations:
  assumes "Reranker_init C m alpha rs = Inr rr"
    and "map_of hypotheses ''translations'' = Some (JList ts)"
    and "score_and_rank C P rr hypotheses reference = Inr (scores, ranking)"
    and "Reranker_rerank C P rr hypotheses reference = Inr out"
  shows "map_of out ''translations'' = Some (JList (map (\<lambda>i. ts ! i) ranking))"
proof -
  have "\<not> rs \<or> (''translations'' \<noteq> ''scores'' \<and> ''translations'' \<noteq> ''score'')"
    by simp
  then show ?thesis
    using rerank_fields [OF assms(1) assms(3) assms(4) assms(2)] by blast
qed

lemma rerank_attached:
  assumes "return_score rr"
    and "score_and_rank C P rr hypotheses reference = Inr (scores, ranking)"
    and "Reranker_rerank C P rr hypotheses reference = Inr out"
  shows "ranking \<noteq> []"
    and "map_of out ''scores'' = Some (JList (map (\<lambda>i. JNum (scores ! i)) ranking))"
    and "map_of out ''score'' = Some (JNum (scores ! hd ranking))"
    and "set (map fst out) = set (map fst hypotheses) \<union> {''scores'', ''score''}"
proof -
  obtain reranked where r: "sort_by_ranking hypotheses ranking = Inr reranked"
    and a: "attach_scores reranked scores ranking = Inr out"
    using assms by (auto simp: Reranker_rerank_def split: sum.splits)
  from a have ne: "ranking \<noteq> []"
    and out: "out = AList.update ''score'' (JNum (scores ! hd ranking))
                (AList.update ''scores'' (JList (map (\<lambda>i. JNum (scores ! i)) ranking)) reranked)"
    by (simp_all add: attach_scores_Inr dict_setitem_def)
  show "ranking \<noteq> []" by (rule ne)
  show "map_of out ''scores'' = Some (JList (map (\<lambda>i. JNum (scores ! i)) ranking))"
    by (simp add: out update_conv')
  show "map_of out ''score'' = Some (JNum (scores ! hd ranking))"
    by (simp add: out update_conv')
  have "set (map fst out) = insert ''score'' (insert ''scores'' (set (map fst reranked)))"
    unfolding out by (simp only: update_key_set)
  then show "set (map fst out) = set (map fst hypotheses) \<union> {''scores'', ''score''}"
    using sort_by_ranking_keys [OF r] by auto
qed

lemma rerank_or_keep_cases:
  assumes "rerank_or_keep C P rr hypotheses reference = Inr (n, reranked)"
  obtains ts where "map_of hypotheses ''translations'' = Some ts" "py_len ts = Inr n"
    "n \<le> 1" "reranked = hypotheses"
  | ts where "map_of hypotheses ''translations'' = Some ts" "py_len ts = Inr n"
    "n > 1" "Reranker_rerank C P rr hypotheses reference = Inr reranked"
  using assms
  by (auto simp: rerank_or_keep_def check_condition_def dict_getitem_def
           split: sum.splits option.splits if_splits)

lemma ranked_translations_length:
  assumes "Reranker_init C m alpha rs = Inr rr"
    and "rerank_or_keep C P rr hypotheses reference = Inr (n, reranked)"
    and "map_of reranked ''translations'' = Some (JList ys)"
  shows "length ys \<le> n"
  using assms(2)
proof (cases rule: rerank_or_keep_cases)
  case (1 ts)
  then show ?thesis using assms(3) by auto
next
  case (2 ts)
  obtain scores ranking where sr: "score_and_rank C P rr hypotheses reference = Inr (scores, ranking)"
    using rerank_score_and_rank [OF 2(4)] by blast
  obtain v' where v': "ranksort ranking ts = Inr v'" "map_of reranked ''translations'' = Some v'"
    using rerank_field [OF sr 2(4) 2(1)] by auto
  then have v'_eq: "v' = JList ys" using assms(3) by simp
  show ?thesis
  proof (cases "\<exists>xs. ts = JList xs")
    case True
    then obtain xs where xs: "ts = JList xs" by blast
    with v' v'_eq have a: "\<forall>i\<in>set ranking. i < length xs" and b: "ys = map (\<lambda>i. xs ! i) ranking"
      by (simp_all add: ranksort_list)
    have "length ranking \<le> length xs"
      using rerank_list_field_length [OF assms(1) sr a] .
    then show ?thesis using b xs 2(2) by simp
  next
    case False
    then have "ranksort ranking ts = Inr ts" by (intro ranksort_non_list) blast
    then have "ts = JList ys" using v' v'_eq by simp
    then show ?thesis using False by blast
  qed
qed

section \<open>When rerank returns a record\<close>

text \<open>
  Scoring returns one score per hypothesis when the scoring function returns on each of
  them, and rerank then returns a record when there is at least one score and no list
  field of the record is shorter than the list of scores.
\<close>

lemma sort_by_ranking_total:
  assumes "\<forall>kv\<in>set hypotheses. \<forall>xs. snd kv = JList xs \<longrightarrow> (\<forall>i\<in>set ranking. i < length xs)"
  shows "\<exists>out. sort_by_ranking hypotheses ranking = Inr out"
  unfolding sort_by_ranking_def
proof (rule map_result_total, rule ballI)
  fix kv assume kv: "kv \<in> set hypotheses"
  show "\<exists>y. (case ranksort ranking (snd kv) of Inl e \<Rightarrow> Inl e | Inr v \<Rightarrow> Inr (fst kv, v)) = Inr y"
  proof (cases "\<exists>xs. snd kv = JList xs")
    case True
    then obtain xs where xs: "snd kv = JList xs" by blast
    then have "ranksort ranking (snd kv) = Inr (JList (map (\<lambda>i. xs ! i) ranking))"
      using assms kv by (simp add: ranksort_list)
    then show ?thesis by simp
  next
    case False
    then have "ranksort ranking (snd kv) = Inr (snd kv)" by (intro ranksort_non_list) blast
    then show ?thesis by simp
  qed
qed

lemma score_overlap_returns:
  assumes "Reranker_init C m alpha rs = Inr rr"
    and "m = RERANK_BLEU C \<or> m = RERANK_CHRF C"
    and "\<not> startswith m (RERANK_ISOMETRIC C)"
    and "map_of hypotheses ''translations'' = Some (JList ts)"
    and "\<forall>h\<in>set ts. \<exists>s. call_with_reference P (scoring_function rr) h [reference] = Inr s"
  shows "\<exists>scores ranking. score_and_rank C P rr hypotheses reference = Inr (scores, ranking) \<and>
           length scores = length ts"
proof -
  have m: "metric rr = m" using init_ranking_indices(2) [OF assms(1)] .
  obtain scores where s: "map_result (\<lambda>h. call_with_reference P (scoring_function rr) h [reference]) ts
                            = Inr scores"
    using map_result_total [OF assms(5)] by blast
  then have "score_and_rank C P rr hypotheses reference = Inr (scores, ranking_indices rr scores)"
    using assms(2,3,4) m
    by (auto simp: score_and_rank_def score_bleu_chrf_def dict_getitem_def)
  then show ?thesis using map_result_length [OF s] by blast
qed

lemma score_isometric_returns:
  assumes "Reranker_init C m alpha rs = Inr rr"
    and "m \<noteq> RERANK_BLEU C" "m \<noteq> RERANK_CHRF C"
    and "startswith m (RERANK_ISOMETRIC C)"
    and "map_of hypotheses ''translations'' = Some (JList ts)"
    and "map_of hypotheses ''text'' = Some source"
    and "map_of hypotheses ''scores'' = Some (JList ss)"
    and "length ss = length ts"
    and "\<forall>p\<in>set (zip ts ss). \<exists>s0 s. py_getitem (snd p) 0 = Inr s0 \<and>
           call_with_source P (scoring_function rr) (fst p) s0 source = Inr s"
  shows "\<exists>scores ranking. score_and_rank C P rr hypotheses reference = Inr (scores, ranking) \<and>
           length scores = length ts"
proof -
  have m: "metric rr = m" using init_ranking_indices(2) [OF assms(1)] .
  let ?f = "\<lambda>p. case py_getitem (snd p) 0 of
                   Inl e \<Rightarrow> Inl e
                 | Inr s0 \<Rightarrow> call_with_source P (scoring_function rr) (fst p) s0 source"
  have "\<exists>s. ?f p = Inr s" if p: "p \<in> set (zip ts ss)" for p
  proof -
    obtain s0 s where "py_getitem (snd p) 0 = Inr s0"
        "call_with_source P (scoring_function rr) (fst p) s0 source = Inr s"
      using assms(9) p by blast
    then show ?thesis by simp
  qed
  then obtain scores where s: "map_result ?f (zip ts ss) = Inr scores"
    using map_result_total [of "zip ts ss" ?f] by blast
  have "score_isometric P rr hypotheses = Inr (scores, ranking_indices rr scores)"
    using assms(5-7) s by (simp add: score_isometric_def dict_getitem_def)
  then have "score_and_rank C P rr hypotheses reference = Inr (scores, ranking_indices rr scores)"
    using assms(2-4) m by (simp add: score_and_rank_def)
  then show ?thesis using map_result_length [OF s] assms(8) by auto
qed

lemma rerank_after_scoring:
  assumes "Reranker_init C m alpha rs = Inr rr"
    and "score_and_rank C P rr hypotheses reference = Inr (scores, ranking)"
    and "scores \<noteq> []"
    and "\<forall>kv\<in>set hypotheses. \<forall>xs. snd kv = JList xs \<longrightarrow> length scores \<le> length xs"
  shows "\<exists>out. Reranker_rerank C P rr hypotheses reference = Inr out"
proof -
  have perm: "mset ranking = mset [0..<length scores]"
    using init_ranking_mset [OF assms(1) assms(2)] .
  then have set_r: "set ranking = {0..<length scores}"
    by (metis mset_eq_setD set_upt)
  have ne: "ranking \<noteq> []" using set_r assms(3) by auto
  have "\<forall>kv\<in>set hypotheses. \<forall>xs. snd kv = JList xs \<longrightarrow> (\<forall>i\<in>set ranking. i < length xs)"
    using assms(4) set_r by fastforce
  then obtain reranked where r: "sort_by_ranking hypotheses ranking = Inr reranked"
    using sort_by_ranking_total by blast
  have "\<exists>out. attach_scores reranked scores ranking = Inr out"
    using set_r ne by (simp add: attach_scores_Inr)
  then show ?thesis using assms(2) r by (auto simp: Reranker_rerank_def)
qed

section \<open>The model on the concrete inputs\<close>

lemma nbest_example_translations:
  "map_of nbest_example ''translations'' = Some (JList [JStr ''a'', JStr ''bbb'', JStr ''cc''])"
  by (simp add: nbest_example_def)

lemma bleu_example_scores: "score_and_rank sockeye_constants stand_in_providers (bleu_reranker rs) nbest_example ''ref''
   = Inr ([Float 1, Float 3, Float 2], [1, 2, 0])"
  by (simp add: eval_defs example_defs upt_rec)

lemma lc_example_scores: "score_and_rank sockeye_constants stand_in_providers (lc_reranker rs) nbest_example ''ref''
   = Inr ([Float 2, Float 1, Float 3], [1, 0, 2])"
  by (simp add: eval_defs example_defs upt_rec)

lemma bleu_example_reranked: "Reranker_rerank sockeye_constants stand_in_providers (bleu_reranker False) nbest_example ''ref''
   = Inr [(''translations'', JList [JStr ''bbb'', JStr ''cc'', JStr ''a'']),
      (''scores'', JList [JList [JNum (Float 1)], JList [JNum (Float 3)], JList [JNum (Float 2)]]),
      (''text'', JStr ''src''),
      (''sentence_id'', JNum (Float 7))]"
  by (simp add: eval_defs example_defs upt_rec)

lemma bleu_example_attached: "Reranker_rerank sockeye_constants stand_in_providers (bleu_reranker True) nbest_example ''ref''
   = Inr [(''translations'', JList [JStr ''bbb'', JStr ''cc'', JStr ''a'']),
      (''scores'', JList [JNum (Float 3), JNum (Float 2), JNum (Float 1)]),
      (''text'', JStr ''src''),
      (''sentence_id'', JNum (Float 7)),
      (''score'', JNum (Float 3))]"
  by (simp add: eval_defs example_defs upt_rec)

lemma lc_example_attached: "Reranker_rerank sockeye_constants stand_in_providers (lc_reranker True) nbest_example ''ref''
   = Inr [(''translations'', JList [JStr ''bbb'', JStr ''a'', JStr ''cc'']),
      (''scores'', JList [JNum (Float 1), JNum (Float 2), JNum (Float 3)]),
      (''text'', JStr ''src''),
      (''sentence_id'', JNum (Float 7)),
      (''score'', JNum (Float 1))]"
  by (simp add: eval_defs example_defs upt_rec)

lemma blank_first_reranked: "rerank_or_keep sockeye_constants stand_in_providers (lc_reranker False) blank_first_example ''ref''
   = Inr (3, [(''translations'', JList [JStr '''', JStr '''', JStr ''good translation'']),
      (''scores'', JList [JList [JNum (Float 1)], JList [JNum (Float 2)], JList [JNum (Float 3)]]),
      (''text'', JStr ''src'')])"
  by (simp add: eval_defs example_defs upt_rec rerank_or_keep_def check_condition_def)

section \<open>Ranking\<close>

text \<open>
  C1. The claim asks for a ranking that keeps hypotheses with equal scores in input order,
  so that scores \<open>[3, 5, 5, 1]\<close> in descending direction give \<open>[1, 2, 0, 3]\<close>. The code
  reverses a stable ascending sort and returns \<open>[2, 1, 0, 3]\<close>: the two hypotheses that
  score 5 come out in reverse input order, here on a record of four translations scored by
  their length. On a record with the same translation twice, the two entries of \<open>scores\<close>
  are swapped.
\<close>

theorem descending_ties_reversed:
  "get_ranking_indices [Float 3, Float 5, Float 5, Float 1] ''descending'' = [2, 1, 0, 3] \<and>
   construct_and_rerank sockeye_constants stand_in_providers ''bleu'' (Float (1/2)) False
     [(''translations'', JList [JStr ''aaa'', JStr ''bbbbb'', JStr ''ccccc'', JStr ''d''])] ''ref''
   = Inr [(''translations'', JList [JStr ''ccccc'', JStr ''bbbbb'', JStr ''aaa'', JStr ''d''])] \<and>
   construct_and_rerank sockeye_constants stand_in_providers ''bleu'' (Float (1/2)) False
     [(''translations'', JList [JStr ''same'', JStr ''same'']),
      (''scores'', JList [JList [JNum (Float (-1))], JList [JNum (Float (-2))]])] ''ref''
   = Inr [(''translations'', JList [JStr ''same'', JStr ''same'']),
          (''scores'', JList [JList [JNum (Float (-2))], JList [JNum (Float (-1))]])]"
  by (simp add: eval_defs upt_rec)

text \<open>
  C2, as stated, fails when a computed score is NaN: numpy sorts NaN after every number,
  so the descending ranking puts it first. Here the scores in output order are NaN, 0.75,
  and \<^verbatim>\<open>nan >= 0.75\<close> is false.
\<close>

theorem nan_score_order_counterexample:
  "construct_and_rerank sockeye_constants stand_in_providers ''isometric-ratio'' (Float (1/2)) True
     [(''translations'', JList [JStr ''a'', JStr ''b'']),
      (''scores'', JList [JList [JNum NaN], JList [JNum (Float (3/4))]]),
      (''text'', JStr ''src'')] ''ref''
   = Inr [(''translations'', JList [JStr ''a'', JStr ''b'']),
          (''scores'', JList [JNum NaN, JNum (Float (3/4))]),
          (''text'', JStr ''src''),
          (''score'', JNum NaN)] \<and>
   \<not> sorted_wrt (\<lambda>a b. float_le b a) [NaN, Float (3/4)]"
  by (simp add: eval_defs upt_rec float_le_def)

text \<open>
  C2, amended. For a record whose \<open>translations\<close> is a list, the record that rerank
  returns has the translations in the order of the ranking (and, with score attachment,
  the computed scores in that order under \<open>scores\<close>). Read in that order the computed
  scores are non-increasing for every metric identifier other than the length-controlled
  one, and non-decreasing for the length-controlled one, in the order that puts NaN above
  every number; when no computed score is NaN, they are so in Python's own comparison.
\<close>

theorem rerank_direction:
  assumes "Reranker_init C m alpha rs = Inr rr"
    and "map_of hypotheses ''translations'' = Some (JList ts)"
    and "score_and_rank C P rr hypotheses reference = Inr (scores, ranking)"
    and "Reranker_rerank C P rr hypotheses reference = Inr out"
  shows "map_of out ''translations'' = Some (JList (map (\<lambda>i. ts ! i) ranking)) \<and>
         (rs \<longrightarrow> map_of out ''scores'' = Some (JList (map (\<lambda>i. JNum (scores ! i)) ranking))) \<and>
         (m \<noteq> RERANK_ISOMETRIC_LC C \<longrightarrow>
            sorted_wrt (\<lambda>a b. float_rank b \<le> float_rank a) (map (\<lambda>i. scores ! i) ranking) \<and>
            (NaN \<notin> set scores \<longrightarrow>
               sorted_wrt (\<lambda>a b. float_le b a) (map (\<lambda>i. scores ! i) ranking))) \<and>
         (m = RERANK_ISOMETRIC_LC C \<longrightarrow>
            sorted_wrt (\<lambda>a b. float_rank a \<le> float_rank b) (map (\<lambda>i. scores ! i) ranking) \<and>
            (NaN \<notin> set scores \<longrightarrow>
               sorted_wrt (\<lambda>a b. float_le a b) (map (\<lambda>i. scores ! i) ranking)))"
proof -
  note r = init_ranking [OF assms(1) assms(3)]
  have tr: "map_of out ''translations'' = Some (JList (map (\<lambda>i. ts ! i) ranking))"
    using rerank_translations [OF assms(1) assms(2) assms(3) assms(4)] .
  have sc: "map_of out ''scores'' = Some (JList (map (\<lambda>i. JNum (scores ! i)) ranking))" if rs
  proof -
    have "return_score rr" using init_ranking_indices(3) [OF assms(1)] that by simp
    then show ?thesis using rerank_attached(2) [OF _ assms(3) assms(4)] by simp
  qed
  have nan: "NaN \<notin> set (map (\<lambda>i. scores ! i) ranking)" if "NaN \<notin> set scores"
    using that r ranked_scores_subset [of scores] by simp
  have desc: "sorted_wrt (\<lambda>a b. float_rank b \<le> float_rank a) (map (\<lambda>i. scores ! i) ranking) \<and>
              (NaN \<notin> set scores \<longrightarrow>
                 sorted_wrt (\<lambda>a b. float_le b a) (map (\<lambda>i. scores ! i) ranking))"
    if "m \<noteq> RERANK_ISOMETRIC_LC C"
  proof -
    have "sorted_wrt (\<lambda>a b. float_rank b \<le> float_rank a) (map (\<lambda>i. scores ! i) ranking)"
      using r that descending_sorted [of scores] by simp
    then show ?thesis using sorted_wrt_rank_ge nan by blast
  qed
  have asc: "sorted_wrt (\<lambda>a b. float_rank a \<le> float_rank b) (map (\<lambda>i. scores ! i) ranking) \<and>
             (NaN \<notin> set scores \<longrightarrow>
                sorted_wrt (\<lambda>a b. float_le a b) (map (\<lambda>i. scores ! i) ranking))"
    if "m = RERANK_ISOMETRIC_LC C"
  proof -
    have "sorted_wrt (\<lambda>a b. float_rank a \<le> float_rank b) (map (\<lambda>i. scores ! i) ranking)"
      using r that ascending_sorted [of scores] by simp
    then show ?thesis using sorted_wrt_rank_le nan by blast
  qed
  show ?thesis using tr sc desc asc by blast
qed

theorem rerank_direction_witness:
  "Reranker_init sockeye_constants ''bleu'' (Float (1/2)) True = Inr (bleu_reranker True) \<and>
   map_of nbest_example ''translations'' = Some (JList [JStr ''a'', JStr ''bbb'', JStr ''cc'']) \<and>
   score_and_rank sockeye_constants stand_in_providers (bleu_reranker True) nbest_example ''ref''
     = Inr ([Float 1, Float 3, Float 2], [1, 2, 0]) \<and>
   Reranker_rerank sockeye_constants stand_in_providers (bleu_reranker True) nbest_example ''ref''
     = Inr [(''translations'', JList [JStr ''bbb'', JStr ''cc'', JStr ''a'']),
            (''scores'', JList [JNum (Float 3), JNum (Float 2), JNum (Float 1)]),
            (''text'', JStr ''src''),
            (''sentence_id'', JNum (Float 7)),
            (''score'', JNum (Float 3))] \<and>
   ''bleu'' \<noteq> RERANK_ISOMETRIC_LC sockeye_constants \<and>
   NaN \<notin> set [Float 1, Float 3, Float 2] \<and>
   sorted_wrt (\<lambda>a b. float_le b a) (map (\<lambda>i. [Float 1, Float 3, Float 2] ! i) [1, 2, 0]) \<and>
   Reranker_init sockeye_constants ''isometric-lc'' (Float (1/2)) True = Inr (lc_reranker True) \<and>
   score_and_rank sockeye_constants stand_in_providers (lc_reranker True) nbest_example ''ref''
     = Inr ([Float 2, Float 1, Float 3], [1, 0, 2]) \<and>
   Reranker_rerank sockeye_constants stand_in_providers (lc_reranker True) nbest_example ''ref''
     = Inr [(''translations'', JList [JStr ''bbb'', JStr ''a'', JStr ''cc'']),
            (''scores'', JList [JNum (Float 1), JNum (Float 2), JNum (Float 3)]),
            (''text'', JStr ''src''),
            (''sentence_id'', JNum (Float 7)),
            (''score'', JNum (Float 1))] \<and>
   ''isometric-lc'' = RERANK_ISOMETRIC_LC sockeye_constants \<and>
   NaN \<notin> set [Float 2, Float 1, Float 3] \<and>
   sorted_wrt (\<lambda>a b. float_le a b) (map (\<lambda>i. [Float 2, Float 1, Float 3] ! i) [1, 0, 2])"
proof -
  have b: "''bleu'' \<noteq> RERANK_ISOMETRIC_LC sockeye_constants"
    by (simp add: sockeye_constants_def)
  have l: "''isometric-lc'' = RERANK_ISOMETRIC_LC sockeye_constants"
    by (simp add: sockeye_constants_def)
  have n: "NaN \<notin> set [Float 1, Float 3, Float 2]" "NaN \<notin> set [Float 2, Float 1, Float 3]"
    by simp_all
  have d: "sorted_wrt (\<lambda>a b. float_le b a) (map (\<lambda>i. [Float 1, Float 3, Float 2] ! i) [1, 2, 0])"
    using rerank_direction [OF init_bleu nbest_example_translations
        bleu_example_scores bleu_example_attached] b n(1)
    by blast
  have a: "sorted_wrt (\<lambda>a b. float_le a b) (map (\<lambda>i. [Float 2, Float 1, Float 3] ! i) [1, 0, 2])"
    using rerank_direction [OF init_lc nbest_example_translations
        lc_example_scores lc_example_attached] l n(2)
    by blast
  show ?thesis
    by (intro conjI) (rule init_bleu nbest_example_translations bleu_example_scores
        bleu_example_attached init_lc lc_example_scores lc_example_attached b l n d a)+
qed

section \<open>Reordering the record\<close>

text \<open>
  C3. For a record whose \<open>translations\<close> is a list and, under an isometric metric, whose
  \<open>scores\<close> is a list of the same length, the \<open>translations\<close> of the record that rerank
  returns is a permutation of the input's: the multiset of hypotheses is unchanged.
\<close>

theorem rerank_translations_permutation:
  assumes "Reranker_init C m alpha rs = Inr rr"
    and "map_of hypotheses ''translations'' = Some (JList ts)"
    and "startswith m (RERANK_ISOMETRIC C) \<longrightarrow>
           (\<exists>ss. map_of hypotheses ''scores'' = Some (JList ss) \<and> length ss = length ts)"
    and "Reranker_rerank C P rr hypotheses reference = Inr out"
  shows "\<exists>ts'. map_of out ''translations'' = Some (JList ts') \<and> mset ts' = mset ts"
proof -
  obtain scores ranking where sr: "score_and_rank C P rr hypotheses reference = Inr (scores, ranking)"
    using rerank_score_and_rank [OF assms(4)] by blast
  have "metric rr = m" using init_ranking_indices(2) [OF assms(1)] .
  then have len: "length scores = length ts"
    using score_and_rank_length [OF sr assms(2)] assms(3) by simp
  have perm: "mset ranking = mset [0..<length ts]"
    using init_ranking_mset [OF assms(1) sr] len by simp
  obtain v' where v': "ranksort ranking (JList ts) = Inr v'" "map_of out ''translations'' = Some v'"
    using rerank_field [OF sr assms(4) assms(2)] by auto
  then have out: "map_of out ''translations'' = Some (JList (map (\<lambda>i. ts ! i) ranking))"
    by (simp add: ranksort_list)
  have "mset (map (\<lambda>i. ts ! i) ranking) = mset (map (\<lambda>i. ts ! i) [0..<length ts])"
    using perm by (metis mset_map)
  also have "\<dots> = mset ts" by (simp only: map_nth)
  finally show ?thesis using out by blast
qed

theorem rerank_translations_permutation_witness:
  "Reranker_init sockeye_constants ''isometric-lc'' (Float (1/2)) True = Inr (lc_reranker True) \<and>
   map_of nbest_example ''translations'' = Some (JList [JStr ''a'', JStr ''bbb'', JStr ''cc'']) \<and>
   (\<exists>ss. map_of nbest_example ''scores'' = Some (JList ss) \<and> length ss = 3) \<and>
   (\<exists>out. Reranker_rerank sockeye_constants stand_in_providers (lc_reranker True) nbest_example ''ref''
            = Inr out \<and>
          (\<exists>ts'. map_of out ''translations'' = Some (JList ts') \<and>
                 mset ts' = mset [JStr ''a'', JStr ''bbb'', JStr ''cc'']))"
proof -
  have t: "map_of nbest_example ''translations'' = Some (JList [JStr ''a'', JStr ''bbb'', JStr ''cc''])"
    by (simp add: nbest_example_def)
  have s: "\<exists>ss. map_of nbest_example ''scores'' = Some (JList ss) \<and> length ss = 3"
    by (simp add: nbest_example_def)
  have s': "startswith ''isometric-lc'' (RERANK_ISOMETRIC sockeye_constants) \<longrightarrow>
           (\<exists>ss. map_of nbest_example ''scores'' = Some (JList ss) \<and>
                 length ss = length [JStr ''a'', JStr ''bbb'', JStr ''cc''])"
    by (simp add: nbest_example_def)
  have "\<exists>ts'. map_of (projr (Reranker_rerank sockeye_constants stand_in_providers (lc_reranker True)
                  nbest_example ''ref'')) ''translations'' = Some (JList ts') \<and>
               mset ts' = mset [JStr ''a'', JStr ''bbb'', JStr ''cc'']"
    using rerank_translations_permutation [OF init_lc t s' lc_example_attached]
    by (simp only: lc_example_attached sum.sel)
  then show ?thesis
    using t s by (simp add: init_lc lc_example_attached)
qed

text \<open>
  C4, as stated, fails: a list-valued field is rebuilt from the ranking whatever its length,
  and with score attachment the fields \<open>scores\<close> and \<open>score\<close> are overwritten. Here
  \<open>extra\<close> has three entries for two hypotheses and comes out as two, and the scalar
  \<open>score\<close> changes from 9 to 2.
\<close>

theorem longer_list_field_counterexample:
  "construct_and_rerank sockeye_constants stand_in_providers ''bleu'' (Float (1/2)) True
     [(''translations'', JList [JStr ''a'', JStr ''bb'']),
      (''extra'', JList [JNum (Float 1), JNum (Float 2), JNum (Float 3)]),
      (''score'', JNum (Float 9))] ''ref''
   = Inr [(''translations'', JList [JStr ''bb'', JStr ''a'']),
          (''extra'', JList [JNum (Float 2), JNum (Float 1)]),
          (''score'', JNum (Float 2)),
          (''scores'', JList [JNum (Float 2), JNum (Float 1)])]"
  by (simp add: eval_defs upt_rec)

text \<open>
  C4, amended. For a record whose \<open>translations\<close> is a list of \<open>N\<close> hypotheses (and, under
  an isometric metric, whose \<open>scores\<close> is a list of \<open>N\<close> entries), let rerank return a
  record. The ranking is a permutation of \<open>0..N-1\<close> and \<open>translations\<close> is reordered by it.
  Every field that is not a list is unchanged. Every list field \<open>F\<close>, whatever its length,
  has at least \<open>N\<close> entries and becomes \<open>[F[i] for i in ranking]\<close> with that same ranking:
  a field of length \<open>N\<close> is permuted exactly like \<open>translations\<close>, a longer one is cut to
  \<open>N\<close> reindexed entries. With score attachment this holds for every field other than
  \<open>scores\<close> and \<open>score\<close>, which are overwritten.
\<close>

theorem rerank_fields_reindexed:
  assumes "Reranker_init C m alpha rs = Inr rr"
    and "map_of hypotheses ''translations'' = Some (JList ts)"
    and "startswith m (RERANK_ISOMETRIC C) \<longrightarrow>
           (\<exists>ss. map_of hypotheses ''scores'' = Some (JList ss) \<and> length ss = length ts)"
    and "score_and_rank C P rr hypotheses reference = Inr (scores, ranking)"
    and "Reranker_rerank C P rr hypotheses reference = Inr out"
    and "map_of hypotheses k = Some v"
    and "\<not> rs \<or> (k \<noteq> ''scores'' \<and> k \<noteq> ''score'')"
  shows "mset ranking = mset [0..<length ts] \<and>
         map_of out ''translations'' = Some (JList (map (\<lambda>i. ts ! i) ranking)) \<and>
         (\<forall>xs. v = JList xs \<longrightarrow>
            length ts \<le> length xs \<and>
            map_of out k = Some (JList (map (\<lambda>i. xs ! i) ranking))) \<and>
         ((\<forall>xs. v \<noteq> JList xs) \<longrightarrow> map_of out k = Some v)"
proof -
  have "metric rr = m" using init_ranking_indices(2) [OF assms(1)] .
  then have len: "length scores = length ts"
    using score_and_rank_length [OF assms(4) assms(2)] assms(3) by simp
  have "mset ranking = mset [0..<length ts]"
    using init_ranking_mset [OF assms(1) assms(4)] len by simp
  moreover have "map_of out ''translations'' = Some (JList (map (\<lambda>i. ts ! i) ranking))"
    using rerank_translations [OF assms(1) assms(2) assms(4) assms(5)] .
  ultimately show ?thesis
    using rerank_fields [OF assms(1) assms(4) assms(5) assms(6) assms(7)] len by simp
qed

theorem rerank_fields_reindexed_witness:
  "Reranker_init sockeye_constants ''bleu'' (Float (1/2)) False = Inr (bleu_reranker False) \<and>
   map_of nbest_example ''translations'' = Some (JList [JStr ''a'', JStr ''bbb'', JStr ''cc'']) \<and>
   \<not> startswith ''bleu'' (RERANK_ISOMETRIC sockeye_constants) \<and>
   score_and_rank sockeye_constants stand_in_providers (bleu_reranker False) nbest_example ''ref''
     = Inr ([Float 1, Float 3, Float 2], [1, 2, 0]) \<and>
   map_of nbest_example ''scores''
     = Some (JList [JList [JNum (Float 2)], JList [JNum (Float 1)], JList [JNum (Float 3)]]) \<and>
   map_of nbest_example ''sentence_id'' = Some (JNum (Float 7)) \<and>
   mset [1, 2, 0] = mset [0..<length [JStr ''a'', JStr ''bbb'', JStr ''cc'']] \<and>
   (\<exists>out. Reranker_rerank sockeye_constants stand_in_providers (bleu_reranker False) nbest_example ''ref''
            = Inr out \<and>
          map_of out ''translations'' = Some (JList [JStr ''bbb'', JStr ''cc'', JStr ''a'']) \<and>
          map_of out ''scores''
            = Some (JList [JList [JNum (Float 1)], JList [JNum (Float 3)], JList [JNum (Float 2)]]) \<and>
          map_of out ''sentence_id'' = Some (JNum (Float 7))) \<and>
   Reranker_init sockeye_constants ''isometric-lc'' (Float (1/2)) True = Inr (lc_reranker True) \<and>
   startswith ''isometric-lc'' (RERANK_ISOMETRIC sockeye_constants) \<and>
   score_and_rank sockeye_constants stand_in_providers (lc_reranker True) nbest_example ''ref''
     = Inr ([Float 2, Float 1, Float 3], [1, 0, 2]) \<and>
   map_of nbest_example ''text'' = Some (JStr ''src'') \<and>
   (\<exists>out. Reranker_rerank sockeye_constants stand_in_providers (lc_reranker True) nbest_example ''ref''
            = Inr out \<and>
          map_of out ''translations'' = Some (JList [JStr ''bbb'', JStr ''a'', JStr ''cc'']) \<and>
          map_of out ''text'' = Some (JStr ''src''))"
proof -
  note t = nbest_example_translations
  have s: "map_of nbest_example ''scores''
             = Some (JList [JList [JNum (Float 2)], JList [JNum (Float 1)], JList [JNum (Float 3)]])"
    by (simp add: nbest_example_def)
  have i: "map_of nbest_example ''sentence_id'' = Some (JNum (Float 7))"
    by (simp add: nbest_example_def)
  have x: "map_of nbest_example ''text'' = Some (JStr ''src'')"
    by (simp add: nbest_example_def)
  have nb: "\<not> startswith ''bleu'' (RERANK_ISOMETRIC sockeye_constants)"
    by (simp add: sockeye_constants_def startswith_def)
  have il: "startswith ''isometric-lc'' (RERANK_ISOMETRIC sockeye_constants)"
    by (simp add: sockeye_constants_def startswith_def)
  have pb: "startswith ''bleu'' (RERANK_ISOMETRIC sockeye_constants) \<longrightarrow>
              (\<exists>ss. map_of nbest_example ''scores'' = Some (JList ss) \<and>
                    length ss = length [JStr ''a'', JStr ''bbb'', JStr ''cc''])"
    using nb by simp
  have pl: "startswith ''isometric-lc'' (RERANK_ISOMETRIC sockeye_constants) \<longrightarrow>
              (\<exists>ss. map_of nbest_example ''scores'' = Some (JList ss) \<and>
                    length ss = length [JStr ''a'', JStr ''bbb'', JStr ''cc''])"
    by (simp add: nbest_example_def)
  have f: "\<not> False \<or> (k \<noteq> ''scores'' \<and> k \<noteq> ''score'')" for k :: string
    by simp
  have g: "\<not> True \<or> (''text'' \<noteq> ''scores'' \<and> ''text'' \<noteq> ''score'')"
    by simp
  have b1: "mset [1, 2, 0] = mset [0..<length [JStr ''a'', JStr ''bbb'', JStr ''cc'']] \<and>
        map_of (projr (Reranker_rerank sockeye_constants stand_in_providers (bleu_reranker False)
                  nbest_example ''ref'')) ''translations''
          = Some (JList (map (\<lambda>i. [JStr ''a'', JStr ''bbb'', JStr ''cc''] ! i) [1, 2, 0])) \<and>
        map_of (projr (Reranker_rerank sockeye_constants stand_in_providers (bleu_reranker False)
                  nbest_example ''ref'')) ''scores''
          = Some (JList (map (\<lambda>i. [JList [JNum (Float 2)], JList [JNum (Float 1)],
                                       JList [JNum (Float 3)]] ! i) [1, 2, 0]))"
    using rerank_fields_reindexed [OF init_bleu t pb bleu_example_scores bleu_example_reranked s f]
    by (simp only: bleu_example_reranked sum.sel)
  have b2: "map_of (projr (Reranker_rerank sockeye_constants stand_in_providers (bleu_reranker False)
                  nbest_example ''ref'')) ''sentence_id'' = Some (JNum (Float 7))"
    using rerank_fields_reindexed [OF init_bleu t pb bleu_example_scores bleu_example_reranked i f]
    by (simp add: bleu_example_reranked)
  have l1: "map_of (projr (Reranker_rerank sockeye_constants stand_in_providers (lc_reranker True)
                  nbest_example ''ref'')) ''translations''
          = Some (JList (map (\<lambda>i. [JStr ''a'', JStr ''bbb'', JStr ''cc''] ! i) [1, 0, 2])) \<and>
        map_of (projr (Reranker_rerank sockeye_constants stand_in_providers (lc_reranker True)
                  nbest_example ''ref'')) ''text'' = Some (JStr ''src'')"
    using rerank_fields_reindexed [OF init_lc t pl lc_example_scores lc_example_attached x g]
    by (simp add: lc_example_attached)
  show ?thesis
    using b1 b2 l1 s i x nb il
    by (simp add: init_bleu t bleu_example_scores bleu_example_reranked init_lc lc_example_scores
          lc_example_attached)
qed

section \<open>Attached scores\<close>

text \<open>
  C7, as stated, fails when a computed score is NaN: the descending ranking puts NaN first,
  so the attached best score is NaN, which is not the maximum of the computed scores
  (\<^verbatim>\<open>0.75 <= nan\<close> is false).
\<close>

theorem nan_best_score_counterexample:
  "construct_and_rerank sockeye_constants stand_in_providers ''isometric-diff'' (Float (1/2)) True
     [(''translations'', JList [JStr ''a'', JStr ''b'', JStr ''c'']),
      (''scores'', JList [JList [JNum (Float (1/2))], JList [JNum NaN], JList [JNum (Float (3/4))]]),
      (''text'', JStr ''src'')] ''ref''
   = Inr [(''translations'', JList [JStr ''b'', JStr ''c'', JStr ''a'']),
          (''scores'', JList [JNum NaN, JNum (Float (3/4)), JNum (Float (1/2))]),
          (''text'', JStr ''src''),
          (''score'', JNum NaN)] \<and>
   \<not> float_le (Float (3/4)) NaN"
  by (simp add: eval_defs upt_rec float_le_def)

text \<open>
  C7, amended. With score attachment enabled, the record that rerank returns carries under
  \<open>scores\<close> the computed scores read in the order of the ranking, and under \<open>score\<close> the
  first of them. That value is one of the computed scores; in the order that puts NaN
  above every number it is the greatest of them for every metric other than the
  length-controlled one and the least of them for the length-controlled one. When no
  computed score is NaN, it is their maximum, respectively their minimum, in Python's own
  comparison.
\<close>

theorem attached_scores:
  assumes "Reranker_init C m alpha True = Inr rr"
    and "score_and_rank C P rr hypotheses reference = Inr (scores, ranking)"
    and "Reranker_rerank C P rr hypotheses reference = Inr out"
  shows "map (\<lambda>i. scores ! i) ranking \<noteq> [] \<and>
         map_of out ''scores'' = Some (JList (map JNum (map (\<lambda>i. scores ! i) ranking))) \<and>
         map_of out ''score'' = Some (JNum (hd (map (\<lambda>i. scores ! i) ranking))) \<and>
         hd (map (\<lambda>i. scores ! i) ranking) \<in> set scores \<and>
         (m \<noteq> RERANK_ISOMETRIC_LC C \<longrightarrow>
            (\<forall>s\<in>set scores. float_rank s \<le> float_rank (hd (map (\<lambda>i. scores ! i) ranking))) \<and>
            (NaN \<notin> set scores \<longrightarrow>
               (\<forall>s\<in>set scores. float_le s (hd (map (\<lambda>i. scores ! i) ranking))))) \<and>
         (m = RERANK_ISOMETRIC_LC C \<longrightarrow>
            (\<forall>s\<in>set scores. float_rank (hd (map (\<lambda>i. scores ! i) ranking)) \<le> float_rank s) \<and>
            (NaN \<notin> set scores \<longrightarrow>
               (\<forall>s\<in>set scores. float_le (hd (map (\<lambda>i. scores ! i) ranking)) s)))"
proof -
  have rs: "return_score rr" using init_ranking_indices(3) [OF assms(1)] by simp
  note att = rerank_attached [OF rs assms(2) assms(3)]
  note r = init_ranking [OF assms(1) assms(2)]
  have ne: "scores \<noteq> []"
    using att(1) r length_get_ranking_indices [of scores] by (metis length_0_conv)
  have hd: "hd (map (\<lambda>i. scores ! i) ranking) = scores ! hd ranking"
    using att(1) by (simp add: hd_map)
  have mem: "scores ! hd ranking \<in> set scores"
    using r ranking_first_in_scores [OF ne] by simp
  have desc: "(\<forall>s\<in>set scores. float_rank s \<le> float_rank (scores ! hd ranking)) \<and>
              (NaN \<notin> set scores \<longrightarrow> (\<forall>s\<in>set scores. float_le s (scores ! hd ranking)))"
    if "m \<noteq> RERANK_ISOMETRIC_LC C"
  proof -
    have g: "\<forall>s\<in>set scores. float_rank s \<le> float_rank (scores ! hd ranking)"
      using r that descending_first_greatest [of _ scores] by simp
    then show ?thesis using mem by (auto simp: float_le_def)
  qed
  have asc: "(\<forall>s\<in>set scores. float_rank (scores ! hd ranking) \<le> float_rank s) \<and>
             (NaN \<notin> set scores \<longrightarrow> (\<forall>s\<in>set scores. float_le (scores ! hd ranking) s))"
    if "m = RERANK_ISOMETRIC_LC C"
  proof -
    have g: "\<forall>s\<in>set scores. float_rank (scores ! hd ranking) \<le> float_rank s"
      using r that ascending_first_least [of _ scores] by simp
    then show ?thesis using mem by (auto simp: float_le_def)
  qed
  have "map (\<lambda>i. scores ! i) ranking \<noteq> []" using att(1) by simp
  moreover have "map_of out ''scores'' = Some (JList (map JNum (map (\<lambda>i. scores ! i) ranking)))"
    using att(2) by (simp add: comp_def)
  moreover have "map_of out ''score'' = Some (JNum (hd (map (\<lambda>i. scores ! i) ranking)))"
    using att(3) hd by simp
  ultimately show ?thesis using mem desc asc unfolding hd by blast
qed

theorem attached_scores_witness:
  "Reranker_init sockeye_constants ''bleu'' (Float (1/2)) True = Inr (bleu_reranker True) \<and>
   score_and_rank sockeye_constants stand_in_providers (bleu_reranker True) nbest_example ''ref''
     = Inr ([Float 1, Float 3, Float 2], [1, 2, 0]) \<and>
   Reranker_rerank sockeye_constants stand_in_providers (bleu_reranker True) nbest_example ''ref''
     = Inr [(''translations'', JList [JStr ''bbb'', JStr ''cc'', JStr ''a'']),
            (''scores'', JList [JNum (Float 3), JNum (Float 2), JNum (Float 1)]),
            (''text'', JStr ''src''),
            (''sentence_id'', JNum (Float 7)),
            (''score'', JNum (Float 3))] \<and>
   ''bleu'' \<noteq> RERANK_ISOMETRIC_LC sockeye_constants \<and>
   NaN \<notin> set [Float 1, Float 3, Float 2] \<and>
   float_le (Float 1) (Float 3) \<and> float_le (Float 3) (Float 3) \<and> float_le (Float 2) (Float 3) \<and>
   Reranker_init sockeye_constants ''isometric-lc'' (Float (1/2)) True = Inr (lc_reranker True) \<and>
   score_and_rank sockeye_constants stand_in_providers (lc_reranker True) nbest_example ''ref''
     = Inr ([Float 2, Float 1, Float 3], [1, 0, 2]) \<and>
   Reranker_rerank sockeye_constants stand_in_providers (lc_reranker True) nbest_example ''ref''
     = Inr [(''translations'', JList [JStr ''bbb'', JStr ''a'', JStr ''cc'']),
            (''scores'', JList [JNum (Float 1), JNum (Float 2), JNum (Float 3)]),
            (''text'', JStr ''src''),
            (''sentence_id'', JNum (Float 7)),
            (''score'', JNum (Float 1))] \<and>
   ''isometric-lc'' = RERANK_ISOMETRIC_LC sockeye_constants \<and>
   NaN \<notin> set [Float 2, Float 1, Float 3] \<and>
   float_le (Float 1) (Float 2) \<and> float_le (Float 1) (Float 1) \<and> float_le (Float 1) (Float 3)"
proof -
  have b: "''bleu'' \<noteq> RERANK_ISOMETRIC_LC sockeye_constants"
    by (simp add: sockeye_constants_def)
  have l: "''isometric-lc'' = RERANK_ISOMETRIC_LC sockeye_constants"
    by (simp add: sockeye_constants_def)
  have n: "NaN \<notin> set [Float 1, Float 3, Float 2]" "NaN \<notin> set [Float 2, Float 1, Float 3]"
    by simp_all
  have "\<forall>s\<in>set [Float 1, Float 3, Float 2].
          float_le s (hd (map (\<lambda>i. [Float 1, Float 3, Float 2] ! i) [1, 2, 0]))"
    using attached_scores [OF init_bleu bleu_example_scores bleu_example_attached] b n(1)
    by blast
  then have d: "float_le (Float 1) (Float 3)" "float_le (Float 3) (Float 3)"
      "float_le (Float 2) (Float 3)"
    by simp_all
  have "\<forall>s\<in>set [Float 2, Float 1, Float 3].
          float_le (hd (map (\<lambda>i. [Float 2, Float 1, Float 3] ! i) [1, 0, 2])) s"
    using attached_scores [OF init_lc lc_example_scores lc_example_attached] l n(2)
    by blast
  then have a: "float_le (Float 1) (Float 2)" "float_le (Float 1) (Float 1)"
      "float_le (Float 1) (Float 3)"
    by simp_all
  show ?thesis
    by (intro conjI) (rule init_bleu bleu_example_scores bleu_example_attached init_lc
        lc_example_scores lc_example_attached b l n d a)+
qed

text \<open>
  C9. With score attachment enabled, the \<open>scores\<close> field of the record that rerank returns
  is the flat list of the computed scores in ranked order. None of the input's
  per-hypothesis score sequences is an entry of it, and the only keys the output has
  beyond the input's are \<open>scores\<close> and \<open>score\<close>, so they are not kept elsewhere.
\<close>

theorem scores_field_replaced:
  assumes "return_score rr"
    and "score_and_rank C P rr hypotheses reference = Inr (scores, ranking)"
    and "Reranker_rerank C P rr hypotheses reference = Inr out"
    and "map_of hypotheses ''scores'' = Some (JList ss)"
    and "\<forall>s\<in>set ss. \<exists>l. s = JList l"
  shows "map_of out ''scores'' = Some (JList (map (\<lambda>i. JNum (scores ! i)) ranking)) \<and>
         (\<forall>s\<in>set ss. s \<notin> set (map (\<lambda>i. JNum (scores ! i)) ranking)) \<and>
         set (map fst out) = set (map fst hypotheses) \<union> {''scores'', ''score''}"
  using rerank_attached(2,4) [OF assms(1) assms(2) assms(3)] assms(5) by auto

theorem scores_field_replaced_witness:
  "return_score (bleu_reranker True) \<and>
   score_and_rank sockeye_constants stand_in_providers (bleu_reranker True) nbest_example ''ref''
     = Inr ([Float 1, Float 3, Float 2], [1, 2, 0]) \<and>
   map_of nbest_example ''scores'' = Some (JList [JList [JNum (Float 2)], JList [JNum (Float 1)], JList [JNum (Float 3)]]) \<and>
   (\<exists>out. Reranker_rerank sockeye_constants stand_in_providers (bleu_reranker True) nbest_example ''ref''
            = Inr out \<and>
          map_of out ''scores'' = Some (JList [JNum (Float 3), JNum (Float 2), JNum (Float 1)]) \<and>
          set (map fst out) = {''translations'', ''scores'', ''text'', ''sentence_id'', ''score''})"
proof -
  have r: "return_score (bleu_reranker True)"
    by (simp add: bleu_reranker_def)
  have s: "map_of nbest_example ''scores'' = Some (JList [JList [JNum (Float 2)], JList [JNum (Float 1)], JList [JNum (Float 3)]])"
    by (simp add: nbest_example_def)
  have a: "\<forall>s\<in>set [JList [JNum (Float 2)], JList [JNum (Float 1)], JList [JNum (Float 3)]]. \<exists>l. s = JList l"
    by simp
  have k: "set (map fst nbest_example) = {''translations'', ''scores'', ''text'', ''sentence_id''}"
    by (simp add: nbest_example_def)
  have "map_of (projr (Reranker_rerank sockeye_constants stand_in_providers (bleu_reranker True)
                  nbest_example ''ref'')) ''scores''
          = Some (JList (map (\<lambda>i. JNum ([Float 1, Float 3, Float 2] ! i)) [1, 2, 0])) \<and>
        set (map fst (projr (Reranker_rerank sockeye_constants stand_in_providers (bleu_reranker True)
                  nbest_example ''ref'')))
          = set (map fst nbest_example) \<union> {''scores'', ''score''}"
    using scores_field_replaced [OF r bleu_example_scores bleu_example_attached s a]
    by (simp only: bleu_example_attached sum.sel)
  then show ?thesis
    using r s unfolding k by (simp add: bleu_example_scores bleu_example_attached)
qed

section \<open>Construction\<close>

text \<open>
  C5. For a metric identifier that is neither the BLEU nor the ChrF identifier and does
  not start with the isometric prefix, construction raises a SockeyeError whose message is
  formatted from the identifier and the list of metric choices; the driver then prints
  nothing and stops with that error whatever the scoring functions are, so none is called.
  For every other identifier construction returns a reranker.
\<close>

theorem unknown_metric_rejected:
  "(m \<noteq> RERANK_BLEU C \<and> m \<noteq> RERANK_CHRF C \<and> \<not> startswith m (RERANK_ISOMETRIC C) \<longrightarrow>
      Reranker_init C m alpha rs =
        Inl (SockeyeError ''Scoring metric '%s' unknown. Choices are: %s''
               [ArgStr m, ArgStrs (RERANK_METRICS C)]) \<and>
      (\<forall>P a reference hypotheses.
         arg_metric a = m \<longrightarrow>
         rerank C P a reference hypotheses =
           ([], Some (SockeyeError ''Scoring metric '%s' unknown. Choices are: %s''
                        [ArgStr m, ArgStrs (RERANK_METRICS C)])))) \<and>
   (m = RERANK_BLEU C \<or> m = RERANK_CHRF C \<or> startswith m (RERANK_ISOMETRIC C) \<longrightarrow>
      (\<exists>rr. Reranker_init C m alpha rs = Inr rr))"
  by (auto simp: Reranker_init_def rerank_def)

theorem unknown_metric_rejected_witness:
  "''not-a-real-metric'' \<noteq> RERANK_BLEU sockeye_constants \<and>
   ''not-a-real-metric'' \<noteq> RERANK_CHRF sockeye_constants \<and>
   \<not> startswith ''not-a-real-metric'' (RERANK_ISOMETRIC sockeye_constants) \<and>
   Reranker_init sockeye_constants ''not-a-real-metric'' (Float (1/2)) False =
     Inl (SockeyeError ''Scoring metric '%s' unknown. Choices are: %s''
            [ArgStr ''not-a-real-metric'',
             ArgStrs [''bleu'', ''chrf'', ''isometric-ratio'', ''isometric-diff'', ''isometric-lc'']]) \<and>
   rerank sockeye_constants stand_in_providers (best_args\<lparr>arg_metric := ''not-a-real-metric''\<rparr>)
       [''ref''] [nbest_example] =
     ([], Some (SockeyeError ''Scoring metric '%s' unknown. Choices are: %s''
            [ArgStr ''not-a-real-metric'',
             ArgStrs [''bleu'', ''chrf'', ''isometric-ratio'', ''isometric-diff'', ''isometric-lc'']])) \<and>
   startswith ''isometric-ratio'' (RERANK_ISOMETRIC sockeye_constants) \<and>
   (\<exists>rr. Reranker_init sockeye_constants ''isometric-ratio'' (Float (1/2)) False = Inr rr)"
proof -
  have n: "''not-a-real-metric'' \<noteq> RERANK_BLEU sockeye_constants \<and>
           ''not-a-real-metric'' \<noteq> RERANK_CHRF sockeye_constants \<and>
           \<not> startswith ''not-a-real-metric'' (RERANK_ISOMETRIC sockeye_constants)"
    by (simp add: sockeye_constants_def startswith_def)
  have i: "startswith ''isometric-ratio'' (RERANK_ISOMETRIC sockeye_constants)"
    by (simp add: sockeye_constants_def startswith_def)
  have m: "RERANK_METRICS sockeye_constants =
             [''bleu'', ''chrf'', ''isometric-ratio'', ''isometric-diff'', ''isometric-lc'']"
    by (simp add: sockeye_constants_def)
  have a: "arg_metric (best_args\<lparr>arg_metric := ''not-a-real-metric''\<rparr>) = ''not-a-real-metric''"
    by simp
  have "Reranker_init sockeye_constants ''not-a-real-metric'' (Float (1/2)) False =
          Inl (SockeyeError ''Scoring metric '%s' unknown. Choices are: %s''
                 [ArgStr ''not-a-real-metric'', ArgStrs (RERANK_METRICS sockeye_constants)]) \<and>
        rerank sockeye_constants stand_in_providers (best_args\<lparr>arg_metric := ''not-a-real-metric''\<rparr>)
            [''ref''] [nbest_example] =
          ([], Some (SockeyeError ''Scoring metric '%s' unknown. Choices are: %s''
                 [ArgStr ''not-a-real-metric'', ArgStrs (RERANK_METRICS sockeye_constants)]))"
    using unknown_metric_rejected [of "''not-a-real-metric''" sockeye_constants "Float (1/2)" False] n a
    by blast
  moreover have "\<exists>rr. Reranker_init sockeye_constants ''isometric-ratio'' (Float (1/2)) False = Inr rr"
    using unknown_metric_rejected [of "''isometric-ratio''" sockeye_constants "Float (1/2)" False] i
    by blast
  ultimately show ?thesis
    using n i unfolding m by blast
qed

section \<open>Degenerate records and the best hypothesis\<close>

text \<open>
  C6. For a record whose \<open>translations\<close> has length 0 or 1, the loop keeps the record as
  it was parsed, for every reranker and all scoring functions (also ones that always
  raise, so none is called), and outside best-hypothesis mode it prints that record.
\<close>

theorem degenerate_record_unchanged:
  assumes "map_of hypotheses ''translations'' = Some ts"
    and "py_len ts = Inr n"
    and "n \<le> 1"
  shows "rerank_or_keep C P rr hypotheses reference = Inr (n, hypotheses) \<and>
         (\<not> output_best a \<longrightarrow>
            rerank_line C P a rr reference hypotheses = Inr (PrintJson hypotheses))"
  using assms
  by (simp add: rerank_or_keep_def rerank_line_def check_condition_def dict_getitem_def)

theorem degenerate_record_unchanged_witness:
  "map_of [(''translations'', JList [JStr ''hello''])] ''translations'' = Some (JList [JStr ''hello'']) \<and>
   py_len (JList [JStr ''hello'']) = Inr 1 \<and> (1::nat) \<le> 1 \<and>
   rerank_or_keep sockeye_constants stand_in_providers (bleu_reranker True)
     [(''translations'', JList [JStr ''hello''])] ''ref''
     = Inr (1, [(''translations'', JList [JStr ''hello''])]) \<and>
   \<not> output_best (best_args\<lparr>output_best := False\<rparr>) \<and>
   rerank_line sockeye_constants stand_in_providers (best_args\<lparr>output_best := False\<rparr>)
     (bleu_reranker True) ''ref'' [(''translations'', JList [JStr ''hello''])]
     = Inr (PrintJson [(''translations'', JList [JStr ''hello''])])"
proof -
  have t: "map_of [(''translations'', JList [JStr ''hello''])] ''translations''
             = Some (JList [JStr ''hello''])"
    by simp
  have n: "py_len (JList [JStr ''hello'']) = Inr 1"
    by simp
  have o: "\<not> output_best (best_args\<lparr>output_best := False\<rparr>)"
    by simp
  show ?thesis
    using degenerate_record_unchanged [OF t n order_refl,
        of sockeye_constants stand_in_providers "bleu_reranker True" "''ref''"
           "best_args\<lparr>output_best := False\<rparr>"] t n o
    by blast
qed

text \<open>
  C8. In best-hypothesis mode, with reference substitution disabled and the scan for a
  non-blank hypothesis enabled, a record whose ranked translations are
  \<open>["", "", "good translation"]\<close> is printed as \<open>good translation\<close>.
\<close>

theorem fallback_chain:
  assumes "Reranker_init C m alpha rs = Inr rr"
    and "rerank_or_keep C P rr hypotheses reference = Inr (n, reranked)"
    and "map_of reranked ''translations'' =
           Some (JList [JStr '''', JStr '''', JStr ''good translation''])"
    and "output_best a"
    and "\<not> output_reference_instead_of_blank a"
    and "output_best_non_blank a"
  shows "rerank_line C P a rr reference hypotheses = Inr (PrintBest (JStr ''good translation''))"
proof -
  have "3 \<le> n" using ranked_translations_length [OF assms(1) assms(2) assms(3)] by simp
  then have upt: "[0..<n] = 0 # 1 # 2 # [3..<n]"
    by (simp add: upt_rec numeral_3_eq_3)
  have "select_best a reference n reranked = Inr (JStr ''good translation'')"
    using assms(3,5,6) \<open>3 \<le> n\<close>
    by (simp add: select_best_def dict_getitem_def upt)
  then show ?thesis using assms(2,4) by (simp add: rerank_line_def)
qed

theorem fallback_chain_witness:
  "Reranker_init sockeye_constants ''isometric-lc'' (Float (1/2)) False = Inr (lc_reranker False) \<and>
   rerank_or_keep sockeye_constants stand_in_providers (lc_reranker False) blank_first_example ''ref''
     = Inr (3, [(''translations'', JList [JStr '''', JStr '''', JStr ''good translation'']),
                (''scores'', JList [JList [JNum (Float 1)], JList [JNum (Float 2)], JList [JNum (Float 3)]]),
                (''text'', JStr ''src'')]) \<and>
   output_best best_args \<and> \<not> output_reference_instead_of_blank best_args \<and>
   output_best_non_blank best_args \<and>
   rerank_line sockeye_constants stand_in_providers best_args (lc_reranker False) ''ref''
     blank_first_example = Inr (PrintBest (JStr ''good translation''))"
proof -
  have t: "map_of [(''translations'', JList [JStr '''', JStr '''', JStr ''good translation'']),
                   (''scores'', JList [JList [JNum (Float 1)], JList [JNum (Float 2)], JList [JNum (Float 3)]]),
                   (''text'', JStr ''src'')] ''translations''
             = Some (JList [JStr '''', JStr '''', JStr ''good translation''])"
    by simp
  have a: "output_best best_args" "\<not> output_reference_instead_of_blank best_args"
    "output_best_non_blank best_args"
    by (simp_all add: best_args_def)
  show ?thesis
    using fallback_chain [OF init_lc blank_first_reranked t a] a
    by (simp only: init_lc blank_first_reranked simp_thms)
qed

text \<open>
  C10. In best-hypothesis mode, with reference substitution disabled and the scan for a
  non-blank hypothesis enabled, a record whose only hypothesis is the empty string is
  printed as the empty string: the scan is not entered for a single hypothesis.
\<close>

theorem single_blank_hypothesis:
  assumes "map_of hypotheses ''translations'' = Some (JList [JStr ''''])"
    and "output_best a"
    and "\<not> output_reference_instead_of_blank a"
    and "output_best_non_blank a"
  shows "rerank_line C P a rr reference hypotheses = Inr (PrintBest (JStr ''''))"
  using assms
  by (simp add: rerank_or_keep_def rerank_line_def check_condition_def dict_getitem_def
                select_best_def)

theorem single_blank_hypothesis_witness:
  "map_of [(''translations'', JList [JStr ''''])] ''translations'' = Some (JList [JStr '''']) \<and>
   output_best best_args \<and> \<not> output_reference_instead_of_blank best_args \<and>
   output_best_non_blank best_args \<and>
   rerank_line sockeye_constants stand_in_providers best_args (lc_reranker False) ''ref''
     [(''translations'', JList [JStr ''''])] = Inr (PrintBest (JStr ''''))"
proof -
  have t: "map_of [(''translations'', JList [JStr ''''])] ''translations'' = Some (JList [JStr ''''])"
    by simp
  have a: "output_best best_args" "\<not> output_reference_instead_of_blank best_args"
    "output_best_non_blank best_args"
    by (simp_all add: best_args_def)
  show ?thesis
    using single_blank_hypothesis [OF t a,
        of sockeye_constants stand_in_providers "lc_reranker False" "''ref''"] t a
    by blast
qed

end
